theory Spec2Isabelle
  imports Complex_Main
begin

section \<open>Python values\<close>

text \<open>
  The three modules pass around values typed \<^verbatim>\<open>Any\<close>: metadata entries, configuration
  entries, the value handed to the storage. They are modelled by one datatype. Python
  floats are idealised as rationals. \<open>VEmbeddingFunction\<close> is an instance of chromadb's
  \<^verbatim>\<open>EmbeddingFunction\<close> supplied by the caller, known by its identity; \<open>VCallable\<close> is a
  callable that is not such an instance, described by what calling it with no argument
  does; \<open>VObject\<close> is any other opaque object, not callable. All three are truthy and
  hashable and have no \<^verbatim>\<open>get\<close> attribute.
\<close>

datatype call_outcome =
    CallRaises string
  | CallReturnsEmbeddingFunction nat
  | CallReturnsOther

datatype pyval =
    VNone
  | VBool bool
  | VInt int
  | VFloat rat
  | VStr string
  | VList "pyval list"
  | VDict "(string \<times> pyval) list"
  | VEmbeddingFunction nat
  | VCallable call_outcome
  | VObject nat

type_synonym pydict = "(string \<times> pyval) list"

text \<open>Truth value testing, as \<^verbatim>\<open>if x\<close>, \<^verbatim>\<open>not x\<close> and \<^verbatim>\<open>x or y\<close> use it.\<close>

fun truthy :: "pyval \<Rightarrow> bool" where
  "truthy VNone = False"
| "truthy (VBool b) = b"
| "truthy (VInt i) = (i \<noteq> 0)"
| "truthy (VFloat r) = (r \<noteq> 0)"
| "truthy (VStr s) = (s \<noteq> [])"
| "truthy (VList xs) = (xs \<noteq> [])"
| "truthy (VDict d) = (d \<noteq> [])"
| "truthy (VEmbeddingFunction _) = True"
| "truthy (VCallable _) = True"
| "truthy (VObject _) = True"

definition py_or :: "pyval \<Rightarrow> pyval \<Rightarrow> pyval" where
  "py_or a b = (if truthy a then a else b)"

text \<open>
  A dict is an association list in insertion order with distinct keys.
  \<open>dict_get\<close> is \<^verbatim>\<open>d.get(k)\<close>, \<open>dict_get_default\<close> is \<^verbatim>\<open>d.get(k, dflt)\<close> and
  \<open>dict_set\<close> is \<^verbatim>\<open>d[k] = v\<close>: an existing key keeps its place, a new key goes last.
\<close>

definition dict_get :: "pydict \<Rightarrow> string \<Rightarrow> pyval" where
  "dict_get d k = (case map_of d k of None \<Rightarrow> VNone | Some v \<Rightarrow> v)"

definition dict_get_default :: "pydict \<Rightarrow> string \<Rightarrow> pyval \<Rightarrow> pyval" where
  "dict_get_default d k dflt = (case map_of d k of None \<Rightarrow> dflt | Some v \<Rightarrow> v)"

fun dict_set :: "pydict \<Rightarrow> string \<Rightarrow> pyval \<Rightarrow> pydict" where
  "dict_set [] k v = [(k, v)]"
| "dict_set ((k', v') # d) k v =
     (if k' = k then (k, v) # d else (k', v') # dict_set d k v)"

section \<open>crewai/memory/memory.py\<close>

text \<open>
  \<^verbatim>\<open>Memory.save\<close> assigns into the metadata dict it was given, so dicts live in a store:
  \<open>heap\<close> maps an address to the dict there and \<open>next_addr\<close> is the first address not yet
  allocated. The storage backend is external; the calls it receives are recorded, in
  order, in \<open>calls\<close>. A dict is passed to the backend by reference (its address).
\<close>

type_synonym addr = nat

datatype storage_call =
    StorageSave pyval addr
  | StorageSearch string int rat

record world =
  heap :: "addr \<Rightarrow> pydict"
  next_addr :: addr
  calls :: "storage_call list"

text \<open>The dict display \<^verbatim>\<open>{}\<close> allocates a new empty dict.\<close>

definition new_dict :: "world \<Rightarrow> addr \<times> world" where
  "new_dict w =
     (next_addr w, w\<lparr>heap := (heap w)(next_addr w := []), next_addr := Suc (next_addr w)\<rparr>)"

text \<open>
  \<^verbatim>\<open>metadata or {}\<close>: the given dict when it is not \<^verbatim>\<open>None\<close> and not empty, a new dict
  otherwise.
\<close>

definition metadata_or_new :: "addr option \<Rightarrow> world \<Rightarrow> addr \<times> world" where
  "metadata_or_new metadata w =
     (case metadata of
        None \<Rightarrow> new_dict w
      | Some a \<Rightarrow> if heap w a \<noteq> [] then (a, w) else new_dict w)"

text \<open>\<^verbatim>\<open>if agent:\<close> on an \<^verbatim>\<open>Optional[str]\<close>.\<close>

definition agent_truthy :: "string option \<Rightarrow> bool" where
  "agent_truthy agent = (case agent of None \<Rightarrow> False | Some s \<Rightarrow> s \<noteq> [])"

definition save :: "pyval \<Rightarrow> addr option \<Rightarrow> string option \<Rightarrow> world \<Rightarrow> world" where
  "save val metadata agent w =
     (let (m, w1) = metadata_or_new metadata w;
          w2 = (case agent of
                  None \<Rightarrow> w1
                | Some s \<Rightarrow>
                    if s \<noteq> []
                    then w1\<lparr>heap := (heap w1)(m := dict_set (heap w1 m) ''agent'' (VStr s))\<rparr>
                    else w1)
      in w2\<lparr>calls := calls w2 @ [StorageSave val m]\<rparr>)"

text \<open>
  \<^verbatim>\<open>Memory.search\<close>. An omitted argument is \<open>None\<close>; the float literal \<^verbatim>\<open>0.35\<close> is the
  rational \<open>35 / 100\<close>. The backend's answer is a parameter: a function of the store it
  sees and of the three arguments.
\<close>

definition default_limit :: int where
  "default_limit = 3"

definition default_score_threshold :: rat where
  "default_score_threshold = 35 / 100"

definition search ::
  "(world \<Rightarrow> string \<Rightarrow> int \<Rightarrow> rat \<Rightarrow> 'r) \<Rightarrow> string \<Rightarrow> int option \<Rightarrow> rat option \<Rightarrow> world
     \<Rightarrow> 'r \<times> world" where
  "search storage_search query limit score_threshold w =
     (let l = (case limit of None \<Rightarrow> default_limit | Some l \<Rightarrow> l);
          t = (case score_threshold of None \<Rightarrow> default_score_threshold | Some t \<Rightarrow> t)
      in (storage_search w query l t, w\<lparr>calls := calls w @ [StorageSearch query l t]\<rparr>))"

text \<open>The metadata the caller handed over, read as a dict: \<^verbatim>\<open>None\<close> counts as empty.\<close>

definition given_metadata :: "addr option \<Rightarrow> world \<Rightarrow> pydict" where
  "given_metadata metadata w = (case metadata of None \<Rightarrow> [] | Some a \<Rightarrow> heap w a)"

text \<open>The address \<^verbatim>\<open>Memory.save\<close> passes to the backend.\<close>

definition saved_addr :: "addr option \<Rightarrow> world \<Rightarrow> addr" where
  "saved_addr metadata w = fst (metadata_or_new metadata w)"

section \<open>Exceptions\<close>

text \<open>
  An exception is a value. The message of an exception raised by this code is kept as the
  f-string that builds it: literal pieces and formatted values, in order.
  \<open>AttributeError\<close>, \<open>TypeError\<close>, \<open>ZeroDivisionError\<close>, \<open>IndexError\<close> and \<open>OverflowError\<close> are
  raised by the interpreter itself (an attribute missing on a value, an unhashable key, a
  division by zero, an index out of range, a number too large to convert).
\<close>

datatype fpart = Lit string | Fmt pyval

datatype py_error =
    ValueError "fpart list"
  | PyException "fpart list"
  | ImportError "fpart list"
  | AttributeError
  | TypeError
  | ZeroDivisionError
  | IndexError
  | OverflowError

definition and_then :: "'e + 'a \<Rightarrow> ('a \<Rightarrow> 'e + 'b) \<Rightarrow> 'e + 'b" where
  "and_then m f = (case m of Inl e \<Rightarrow> Inl e | Inr x \<Rightarrow> f x)"

text \<open>A list comprehension whose element expression may raise: the first exception wins.\<close>

fun traverse :: "('a \<Rightarrow> 'e + 'b) \<Rightarrow> 'a list \<Rightarrow> 'e + 'b list" where
  "traverse f [] = Inr []"
| "traverse f (x # xs) =
     (case f x of
        Inl e \<Rightarrow> Inl e
      | Inr y \<Rightarrow> (case traverse f xs of Inl e \<Rightarrow> Inl e | Inr ys \<Rightarrow> Inr (y # ys)))"

section \<open>crewai/utilities/evaluators/crew_evaluator_handler.py\<close>

subsection \<open>Data\<close>

text \<open>
  Of a \<^verbatim>\<open>Task\<close> the evaluator reads the description, the expected output and the
  execution time, and it assigns the callback. Of a \<^verbatim>\<open>TaskOutput\<close> it reads the
  description and the raw text. Scores and execution times are floats: values of a type
  \<open>'f\<close> of which nothing is assumed.
\<close>

datatype llm = LLM string

datatype llm_arg = AnLLM llm | ModelName string

datatype callback = EvaluateCallback

record 'f task =
  description :: string
  expected_output :: string
  execution_time :: 'f
  callback :: "callback option"

record task_output =
  output_description :: string
  raw :: string

text \<open>
  \<^verbatim>\<open>tasks_scores\<close>, \<^verbatim>\<open>run_execution_times\<close> and \<^verbatim>\<open>iteration\<close> are assigned in the class body:
  they are attributes of the class object, created once. The two \<^verbatim>\<open>defaultdict(list)\<close>
  are association lists in insertion order. An instance holds what \<^verbatim>\<open>__init__\<close> and
  \<^verbatim>\<open>set_iteration\<close> assign on \<^verbatim>\<open>self\<close>; \<open>self_iteration\<close> is \<open>None\<close> until \<^verbatim>\<open>set_iteration\<close>
  has run on that instance.
\<close>

record 'f evaluator_class =
  tasks_scores :: "(int \<times> 'f list) list"
  run_execution_times :: "(int \<times> 'f list) list"
  iteration :: int

record 'f evaluator =
  crew :: "'f task list"
  llm :: llm
  self_iteration :: "int option"

definition class_body :: "'f evaluator_class" where
  "class_body = \<lparr>tasks_scores = [], run_execution_times = [], iteration = 0\<rparr>"

text \<open>
  Reading \<^verbatim>\<open>self.iteration\<close> finds the instance attribute when there is one and the class
  attribute otherwise. \<^verbatim>\<open>self.tasks_scores\<close> and \<^verbatim>\<open>self.run_execution_times\<close> always
  find the class attribute: no code assigns them on an instance.
\<close>

definition get_iteration :: "'f evaluator_class \<Rightarrow> 'f evaluator \<Rightarrow> int" where
  "get_iteration cls self = (case self_iteration self of None \<Rightarrow> iteration cls | Some i \<Rightarrow> i)"

text \<open>
  \<^verbatim>\<open>d[k]\<close> on a \<^verbatim>\<open>defaultdict(list)\<close> gives the list stored under \<open>k\<close>, an empty list when
  there is none; \<^verbatim>\<open>d[k].append(v)\<close> appends to it, adding the key last when it is new.
\<close>

definition dd_get :: "(int \<times> 'a list) list \<Rightarrow> int \<Rightarrow> 'a list" where
  "dd_get d k = (case map_of d k of None \<Rightarrow> [] | Some xs \<Rightarrow> xs)"

fun dd_append :: "(int \<times> 'a list) list \<Rightarrow> int \<Rightarrow> 'a \<Rightarrow> (int \<times> 'a list) list" where
  "dd_append [] k v = [(k, [v])]"
| "dd_append ((k', xs) # d) k v =
     (if k' = k then (k', xs @ [v]) # d else (k', xs) # dd_append d k v)"

subsection \<open>Construction and iteration\<close>

text \<open>
  \<^verbatim>\<open>__init__\<close> stores the crew and the language model (wrapping a model name) and
  \<^verbatim>\<open>_setup_for_evaluating\<close> makes \<^verbatim>\<open>self.evaluate\<close> the callback of every task. The class
  state goes in and comes out, since the constructor could touch it.
\<close>

definition the_llm :: "llm_arg \<Rightarrow> llm" where
  "the_llm a = (case a of AnLLM l \<Rightarrow> l | ModelName m \<Rightarrow> LLM m)"

definition setup_for_evaluating :: "'f task list \<Rightarrow> 'f task list" where
  "setup_for_evaluating ts = map (\<lambda>t. t\<lparr>callback := Some EvaluateCallback\<rparr>) ts"

definition evaluator_init ::
  "'f task list \<Rightarrow> llm_arg \<Rightarrow> 'f evaluator_class \<Rightarrow> 'f evaluator \<times> 'f evaluator_class" where
  "evaluator_init c l cls =
     (\<lparr>crew = setup_for_evaluating c, llm = the_llm l, self_iteration = None\<rparr>, cls)"

definition set_iteration :: "int \<Rightarrow> 'f evaluator \<Rightarrow> 'f evaluator" where
  "set_iteration i self = self\<lparr>self_iteration := Some i\<rparr>"

subsection \<open>evaluate\<close>

text \<open>
  The loop over \<^verbatim>\<open>self.crew.tasks\<close> keeps the first task whose description equals that of
  the output. A \<^verbatim>\<open>Task\<close> and a \<^verbatim>\<open>TaskOutput\<close> are objects and so truthy: the test
  \<^verbatim>\<open>not current_task or not task_output\<close> holds exactly when no task was found.

  Running the evaluation task is a call to a language model: \<open>execute_sync\<close> is a
  parameter that gives, for the model, the task and the raw output, the quality when
  \<^verbatim>\<open>evaluation_result.pydantic\<close> is a \<^verbatim>\<open>TaskEvaluationPydanticOutput\<close> and \<open>None\<close> otherwise.
  The telemetry span is not modelled. The result pairs the exception raised, if any,
  with the class state afterwards.
\<close>

fun find_task :: "'f task list \<Rightarrow> string \<Rightarrow> 'f task option" where
  "find_task [] d = None"
| "find_task (t # ts) d = (if description t = d then Some t else find_task ts d)"

definition evaluate ::
  "(llm \<Rightarrow> 'f task \<Rightarrow> string \<Rightarrow> 'f option) \<Rightarrow> 'f evaluator \<Rightarrow> task_output
     \<Rightarrow> 'f evaluator_class \<Rightarrow> py_error option \<times> 'f evaluator_class" where
  "evaluate execute_sync self out cls =
     (case find_task (crew self) (output_description out) of
        None \<Rightarrow>
          (Some (ValueError
             [Lit ''Task to evaluate and task output are required for evaluation'']), cls)
      | Some current_task \<Rightarrow>
          (case execute_sync (llm self) current_task (raw out) of
             Some quality \<Rightarrow>
               (None,
                cls\<lparr>tasks_scores :=
                      dd_append (tasks_scores cls) (get_iteration cls self) quality,
                    run_execution_times :=
                      dd_append (run_execution_times cls) (get_iteration cls self)
                        (execution_time current_task)\<rparr>)
           | None \<Rightarrow>
               (Some (ValueError [Lit ''Evaluation result is not in the expected format'']),
                cls)))"

subsection \<open>print_crew_evaluation_result\<close>

text \<open>
  Floating-point arithmetic belongs to the interpreter, and \<^verbatim>\<open>sum\<close> of floats is not the
  same function in every version of it, so the arithmetic is a parameter:
  \<open>float_sum\<close> is \<^verbatim>\<open>sum(xs)\<close> for a non-empty list of floats, \<open>float_div\<close> is \<^verbatim>\<open>x / n\<close> for
  a float and a positive integer, \<open>int_div\<close> is \<^verbatim>\<open>i / n\<close> for an integer and a positive
  integer (a float, or an exception when the quotient is too large for one) and
  \<open>float_int\<close> is \<^verbatim>\<open>int(x)\<close> for a float (an integer, or an exception when \<open>x\<close> is infinite
  or not a number). Nothing is assumed of them: sums need not be associative, quotients
  need not be exact. The sum of integers is exact.
\<close>

record 'f arith =
  float_sum :: "'f list \<Rightarrow> 'f"
  float_div :: "'f \<Rightarrow> nat \<Rightarrow> 'f"
  int_div :: "int \<Rightarrow> nat \<Rightarrow> py_error + 'f"
  float_int :: "'f \<Rightarrow> py_error + int"

text \<open>
  \<^verbatim>\<open>sum(xs) / len(xs)\<close> for floats: the sum of no floats is the integer 0 and the division
  is then by zero. \<^verbatim>\<open>int(sum(xs))\<close> for floats: the sum of no floats is the integer 0.
  \<^verbatim>\<open>int(sum(xs) / len(xs))\<close> for integers. \<^verbatim>\<open>xs[i]\<close> for \<open>i \<ge> 0\<close>.
\<close>

definition mean :: "'f arith \<Rightarrow> 'f list \<Rightarrow> py_error + 'f" where
  "mean ar xs =
     (if xs = [] then Inl ZeroDivisionError
      else Inr (float_div ar (float_sum ar xs) (length xs)))"

definition int_of_sum :: "'f arith \<Rightarrow> 'f list \<Rightarrow> py_error + int" where
  "int_of_sum ar xs = (if xs = [] then Inr 0 else float_int ar (float_sum ar xs))"

definition int_of_mean :: "'f arith \<Rightarrow> int list \<Rightarrow> py_error + int" where
  "int_of_mean ar xs =
     (if xs = [] then Inl ZeroDivisionError
      else and_then (int_div ar (sum_list xs) (length xs)) (float_int ar))"

definition list_index :: "'a list \<Rightarrow> nat \<Rightarrow> py_error + 'a" where
  "list_index xs i = (if i < length xs then Inr (xs ! i) else Inl IndexError)"

text \<open>
  \<^verbatim>\<open>zip(*xss)\<close>: the columns of \<open>xss\<close>, as many as the shortest list has elements, none
  when \<open>xss\<close> is empty. \<^verbatim>\<open>range(1, n + 1)\<close> gives the runs.
\<close>

definition zip_star :: "'a list list \<Rightarrow> 'a list list" where
  "zip_star xss =
     (case xss of
        [] \<Rightarrow> []
      | xs # rest \<Rightarrow>
          map (\<lambda>i. map (\<lambda>ys. ys ! i) xss) [0..<fold min (map length rest) (length xs)])"

definition runs :: "nat \<Rightarrow> int list" where
  "runs n = map int [1..<Suc n]"

text \<open>
  What the table shows, before the numbers are formatted: for each task its score in
  each run and its average, the crew's score in each run and its average, the execution
  time of each run and their average. The agent column and the layout are not modelled.

  A run missing from \<^verbatim>\<open>tasks_scores\<close> is added with an empty list by the defaultdict, and
  the same expression then raises (an index into the empty list, or a division by its
  length), so the model returns the exception and keeps no state.
\<close>

record 'f result_table =
  task_rows :: "('f list \<times> 'f) list"
  crew_scores :: "'f list"
  crew_average :: 'f
  run_exec_times :: "int list"
  execution_time_avg :: int

definition print_crew_evaluation_result ::
  "'f arith \<Rightarrow> 'f evaluator \<Rightarrow> 'f evaluator_class \<Rightarrow> py_error + 'f result_table" where
  "print_crew_evaluation_result ar self cls =
     and_then (traverse (mean ar) (zip_star (map snd (tasks_scores cls)))) (\<lambda>task_averages.
     and_then (mean ar task_averages) (\<lambda>crew_avg.
     and_then
       (traverse (\<lambda>task_index.
          and_then
            (traverse (\<lambda>run. list_index (dd_get (tasks_scores cls) run) task_index)
               (runs (length (tasks_scores cls)))) (\<lambda>task_scores.
          and_then (list_index task_averages task_index) (\<lambda>avg_score.
          Inr (task_scores, avg_score))))
          [0..<length (crew self)]) (\<lambda>rows.
     and_then
       (traverse (\<lambda>run. mean ar (dd_get (tasks_scores cls) run))
          (runs (length (tasks_scores cls)))) (\<lambda>crew_scrs.
     and_then
       (traverse (\<lambda>(_, tasks_exec_times). int_of_sum ar tasks_exec_times)
          (run_execution_times cls)) (\<lambda>times.
     and_then (int_of_mean ar times) (\<lambda>avg.
     Inr \<lparr>task_rows = rows, crew_scores = crew_scrs, crew_average = crew_avg,
          run_exec_times = times, execution_time_avg = avg\<rparr>))))))"

subsection \<open>The claimed averages\<close>

text \<open>
  The arithmetic mean the description of the table speaks of, in the interpreter's
  arithmetic: the sum of the list divided by its length. And the average execution time
  as that description words it: the conversion to an integer of the mean of the summed
  execution times of the runs.
\<close>

definition arithmetic_mean :: "'f arith \<Rightarrow> 'f list \<Rightarrow> 'f" where
  "arithmetic_mean ar xs = float_div ar (float_sum ar xs) (length xs)"

definition claimed_execution_time_avg ::
  "'f arith \<Rightarrow> 'f evaluator_class \<Rightarrow> nat \<Rightarrow> py_error + int" where
  "claimed_execution_time_avg ar cls n =
     float_int ar (arithmetic_mean ar
       (map (\<lambda>run. float_sum ar (dd_get (run_execution_times cls) run)) (runs n)))"

section \<open>crewai/utilities/embedding_configurator.py\<close>

subsection \<open>The environment and the embedding functions\<close>

text \<open>
  What the configurator takes from outside the repository is a parameter:
  \<^verbatim>\<open>os.getenv\<close>; \<^verbatim>\<open>urllib.parse.urlparse\<close>, which for a value either raises (the text of
  the exception is given) or returns a result of which the code reads the scheme and the
  netloc; whether the IBM Watson packages can be imported; and chromadb's
  \<^verbatim>\<open>validate_embedding_function\<close>, which for an embedding function instance either passes
  or raises (the text of the exception is given).
\<close>

record env =
  getenv :: "string \<Rightarrow> string option"
  urlparse :: "pyval \<Rightarrow> string + (string \<times> string)"
  watson_installed :: bool
  validate_embedding_function :: "nat \<Rightarrow> string option"

text \<open>
  An embedding function built by an SDK class is that class with the keyword arguments of
  the call, in the order written. The Watson embedding function is a local class that
  closes over the config. An embedding function of the caller is known by its identity.
\<close>

datatype embedding_function =
    OpenAIEmbeddingFunction pydict
  | OllamaEmbeddingFunction pydict
  | GoogleVertexEmbeddingFunction pydict
  | GoogleGenerativeAiEmbeddingFunction pydict
  | CohereEmbeddingFunction pydict
  | VoyageAIEmbeddingFunction pydict
  | AmazonBedrockEmbeddingFunction pydict
  | HuggingFaceEmbeddingServer pydict
  | WatsonEmbeddingFunction pydict
  | CallerEmbeddingFunction nat

definition os_getenv :: "env \<Rightarrow> string \<Rightarrow> pyval" where
  "os_getenv e name = (case getenv e name of None \<Rightarrow> VNone | Some s \<Rightarrow> VStr s)"

subsection \<open>URL validation\<close>

text \<open>
  Both the \<^verbatim>\<open>ValueError\<close> raised inside the \<^verbatim>\<open>try\<close> and any exception of \<^verbatim>\<open>urlparse\<close>
  are caught by \<^verbatim>\<open>except Exception\<close> and raised again as a \<^verbatim>\<open>ValueError\<close> whose message
  starts with \<^verbatim>\<open>Invalid URL: \<close> and goes on with the text of the caught exception.
\<close>

definition validate_url :: "env \<Rightarrow> pyval \<Rightarrow> py_error + pyval" where
  "validate_url e url =
     (case urlparse e url of
        Inl msg \<Rightarrow> Inl (ValueError [Lit ''Invalid URL: '', Lit msg])
      | Inr (scheme, netloc) \<Rightarrow>
          if scheme \<noteq> [] \<and> netloc \<noteq> [] then Inr url
          else Inl (ValueError [Lit ''Invalid URL: '', Lit ''Invalid URL format: '', Fmt url]))"

subsection \<open>The provider configurators\<close>

definition create_default_embedding_function :: "env \<Rightarrow> embedding_function" where
  "create_default_embedding_function e =
     OpenAIEmbeddingFunction
       [(''api_key'', os_getenv e ''OPENAI_API_KEY''),
        (''model_name'', VStr ''text-embedding-3-small'')]"

definition configure_openai :: "env \<Rightarrow> pydict \<Rightarrow> pyval \<Rightarrow> py_error + embedding_function" where
  "configure_openai e config model_name =
     Inr (OpenAIEmbeddingFunction
       [(''api_key'', py_or (dict_get config ''api_key'') (os_getenv e ''OPENAI_API_KEY'')),
        (''model_name'', model_name),
        (''api_base'', dict_get_default config ''api_base'' VNone),
        (''api_type'', dict_get_default config ''api_type'' VNone),
        (''api_version'', dict_get_default config ''api_version'' VNone),
        (''default_headers'', dict_get_default config ''default_headers'' VNone),
        (''dimensions'', dict_get_default config ''dimensions'' VNone),
        (''deployment_id'', dict_get_default config ''deployment_id'' VNone),
        (''organization_id'', dict_get_default config ''organization_id'' VNone)])"

definition configure_azure :: "env \<Rightarrow> pydict \<Rightarrow> pyval \<Rightarrow> py_error + embedding_function" where
  "configure_azure e config model_name =
     Inr (OpenAIEmbeddingFunction
       [(''api_key'', dict_get config ''api_key''),
        (''api_base'', dict_get config ''api_base''),
        (''api_type'', dict_get_default config ''api_type'' (VStr ''azure'')),
        (''api_version'', dict_get config ''api_version''),
        (''model_name'', model_name),
        (''default_headers'', dict_get config ''default_headers''),
        (''dimensions'', dict_get config ''dimensions''),
        (''deployment_id'', dict_get config ''deployment_id''),
        (''organization_id'', dict_get config ''organization_id'')])"

definition default_ollama_url :: string where
  "default_ollama_url = ''http://localhost:11434/api/embeddings''"

definition ollama_url :: "pydict \<Rightarrow> pyval" where
  "ollama_url config =
     py_or (dict_get config ''url'')
       (py_or (dict_get config ''api_url'')
          (py_or (dict_get config ''base_url'')
             (py_or (dict_get config ''api_base'') (VStr default_ollama_url))))"

definition configure_ollama :: "env \<Rightarrow> pydict \<Rightarrow> pyval \<Rightarrow> py_error + embedding_function" where
  "configure_ollama e config model_name =
     (if \<not> truthy model_name
      then Inl (ValueError [Lit ''Model name is required for Ollama embedder configuration''])
      else and_then (validate_url e (ollama_url config)) (\<lambda>validated_url.
             Inr (OllamaEmbeddingFunction
                    [(''url'', validated_url), (''model_name'', model_name)])))"

definition configure_vertexai :: "env \<Rightarrow> pydict \<Rightarrow> pyval \<Rightarrow> py_error + embedding_function" where
  "configure_vertexai e config model_name =
     Inr (GoogleVertexEmbeddingFunction
       [(''model_name'', model_name),
        (''api_key'', dict_get config ''api_key''),
        (''project_id'', dict_get config ''project_id''),
        (''region'', dict_get config ''region'')])"

definition configure_google :: "env \<Rightarrow> pydict \<Rightarrow> pyval \<Rightarrow> py_error + embedding_function" where
  "configure_google e config model_name =
     Inr (GoogleGenerativeAiEmbeddingFunction
       [(''model_name'', model_name),
        (''api_key'', dict_get config ''api_key''),
        (''task_type'', dict_get config ''task_type'')])"

definition configure_cohere :: "env \<Rightarrow> pydict \<Rightarrow> pyval \<Rightarrow> py_error + embedding_function" where
  "configure_cohere e config model_name =
     Inr (CohereEmbeddingFunction
       [(''model_name'', model_name), (''api_key'', dict_get config ''api_key'')])"

definition configure_voyageai :: "env \<Rightarrow> pydict \<Rightarrow> pyval \<Rightarrow> py_error + embedding_function" where
  "configure_voyageai e config model_name =
     Inr (VoyageAIEmbeddingFunction
       [(''model_name'', model_name), (''api_key'', dict_get config ''api_key'')])"

definition configure_bedrock :: "env \<Rightarrow> pydict \<Rightarrow> pyval \<Rightarrow> py_error + embedding_function" where
  "configure_bedrock e config model_name =
     Inr (AmazonBedrockEmbeddingFunction
       ((''session'', dict_get config ''session'')
        # (if model_name \<noteq> VNone then [(''model_name'', model_name)] else [])))"

definition configure_huggingface :: "env \<Rightarrow> pydict \<Rightarrow> pyval \<Rightarrow> py_error + embedding_function" where
  "configure_huggingface e config model_name =
     Inr (HuggingFaceEmbeddingServer [(''url'', dict_get config ''api_url'')])"

definition configure_watson :: "env \<Rightarrow> pydict \<Rightarrow> pyval \<Rightarrow> py_error + embedding_function" where
  "configure_watson e config model_name =
     (if watson_installed e then Inr (WatsonEmbeddingFunction config)
      else Inl (ImportError
        [Lit (''IBM Watson dependencies are not installed. ''
              @ ''Please install them to use Watson embedding.'')]))"

text \<open>
  \<^verbatim>\<open>_configure_custom\<close> is reached with whatever the \<^verbatim>\<open>"config"\<close> entry is; \<^verbatim>\<open>config.get\<close>
  raises \<^verbatim>\<open>AttributeError\<close> on a value that is not a dict. In the callable branch the
  \<^verbatim>\<open>ValueError\<close> raised inside the \<^verbatim>\<open>try\<close> is caught and wrapped like any other exception.
\<close>

definition py_get :: "pyval \<Rightarrow> string \<Rightarrow> py_error + pyval" where
  "py_get v k = (case v of VDict d \<Rightarrow> Inr (dict_get d k) | _ \<Rightarrow> Inl AttributeError)"

definition instantiate_custom :: "env \<Rightarrow> call_outcome \<Rightarrow> py_error + embedding_function" where
  "instantiate_custom e outcome =
     (case outcome of
        CallRaises msg \<Rightarrow>
          Inl (ValueError [Lit ''Error instantiating custom embedder: '', Lit msg])
      | CallReturnsEmbeddingFunction i \<Rightarrow>
          (case validate_embedding_function e i of
             None \<Rightarrow> Inr (CallerEmbeddingFunction i)
           | Some msg \<Rightarrow>
               Inl (ValueError [Lit ''Error instantiating custom embedder: '', Lit msg]))
      | CallReturnsOther \<Rightarrow>
          Inl (ValueError
            [Lit ''Error instantiating custom embedder: '',
             Lit ''Custom embedder does not create an EmbeddingFunction instance'']))"

definition configure_custom :: "env \<Rightarrow> pyval \<Rightarrow> py_error + embedding_function" where
  "configure_custom e config =
     and_then (py_get config ''embedder'') (\<lambda>custom_embedder.
       case custom_embedder of
         VEmbeddingFunction i \<Rightarrow>
           (case validate_embedding_function e i of
              None \<Rightarrow> Inr (CallerEmbeddingFunction i)
            | Some msg \<Rightarrow>
                Inl (ValueError [Lit ''Invalid custom embedding function: '', Lit msg]))
       | VCallable outcome \<Rightarrow> instantiate_custom e outcome
       | _ \<Rightarrow>
           Inl (ValueError
             [Lit (''Custom embedder must be an instance of `EmbeddingFunction` ''
                   @ ''or a callable that creates one'')]))"

subsection \<open>configure_embedder\<close>

text \<open>
  An \<^verbatim>\<open>EmbeddingConfigurator\<close> holds the table \<^verbatim>\<open>self.embedding_functions\<close>, which
  \<^verbatim>\<open>__init__\<close> builds. Ten entries are functions of the config and the model name, the
  last is a function of the config alone.
\<close>

datatype configurator =
    WithModelName "env \<Rightarrow> pydict \<Rightarrow> pyval \<Rightarrow> py_error + embedding_function"
  | ConfigOnly "env \<Rightarrow> pyval \<Rightarrow> py_error + embedding_function"

record embedding_configurator =
  embedding_functions :: "(string \<times> configurator) list"

definition configurator_init :: embedding_configurator where
  "configurator_init = \<lparr>embedding_functions =
     [(''openai'', WithModelName configure_openai),
      (''azure'', WithModelName configure_azure),
      (''ollama'', WithModelName configure_ollama),
      (''vertexai'', WithModelName configure_vertexai),
      (''google'', WithModelName configure_google),
      (''cohere'', WithModelName configure_cohere),
      (''voyageai'', WithModelName configure_voyageai),
      (''bedrock'', WithModelName configure_bedrock),
      (''huggingface'', WithModelName configure_huggingface),
      (''watson'', WithModelName configure_watson),
      (''custom'', ConfigOnly configure_custom)]\<rparr>"

text \<open>
  \<^verbatim>\<open>provider not in self.embedding_functions\<close> hashes the provider first: a list or a dict
  raises \<^verbatim>\<open>TypeError\<close>. Otherwise only a string equal to a key of the table is found.
\<close>

fun hashable :: "pyval \<Rightarrow> bool" where
  "hashable (VList _) = False"
| "hashable (VDict _) = False"
| "hashable _ = True"

definition lookup_provider ::
  "embedding_configurator \<Rightarrow> pyval \<Rightarrow> py_error + configurator option" where
  "lookup_provider self provider =
     (if \<not> hashable provider then Inl TypeError
      else case provider of
        VStr s \<Rightarrow> Inr (map_of (embedding_functions self) s)
      | _ \<Rightarrow> Inr None)"

definition unsupported_provider :: "embedding_configurator \<Rightarrow> pyval \<Rightarrow> py_error" where
  "unsupported_provider self provider =
     PyException
       [Lit ''Unsupported embedding provider: '', Fmt provider,
        Lit '', supported providers: '',
        Fmt (VList (map (VStr \<circ> fst) (embedding_functions self)))]"

text \<open>
  Calling a table entry. A function of two arguments is only reached for a provider other
  than \<^verbatim>\<open>"custom"\<close>, after \<^verbatim>\<open>config.get("model")\<close> has returned, so its config is a dict;
  the other cases of \<open>call_with_model_name\<close> and \<open>call_config_only\<close> are what Python would
  do there (no \<^verbatim>\<open>get\<close> attribute, wrong number of arguments).
\<close>

definition call_with_model_name ::
  "configurator \<Rightarrow> env \<Rightarrow> pyval \<Rightarrow> pyval \<Rightarrow> py_error + embedding_function" where
  "call_with_model_name f e config model_name =
     (case f of
        WithModelName g \<Rightarrow>
          (case config of VDict d \<Rightarrow> g e d model_name | _ \<Rightarrow> Inl AttributeError)
      | ConfigOnly _ \<Rightarrow> Inl TypeError)"

definition call_config_only ::
  "configurator \<Rightarrow> env \<Rightarrow> pyval \<Rightarrow> py_error + embedding_function" where
  "call_config_only f e config =
     (case f of ConfigOnly g \<Rightarrow> g e config | WithModelName _ \<Rightarrow> Inl TypeError)"

definition configure_embedder ::
  "embedding_configurator \<Rightarrow> env \<Rightarrow> pydict option \<Rightarrow> py_error + embedding_function" where
  "configure_embedder self e embedder_config =
     (case embedder_config of
        None \<Rightarrow> Inr (create_default_embedding_function e)
      | Some ec \<Rightarrow>
          (let provider = dict_get ec ''provider'';
               config = dict_get_default ec ''config'' (VDict [])
           in and_then
                (if provider \<noteq> VStr ''custom'' then py_get config ''model'' else Inr VNone)
                (\<lambda>model_name.
              and_then (lookup_provider self provider) (\<lambda>found.
                case found of
                  None \<Rightarrow> Inl (unsupported_provider self provider)
                | Some embedding_function \<Rightarrow>
                    if provider = VStr ''custom''
                    then call_config_only embedding_function e config
                    else call_with_model_name embedding_function e config model_name))))"

subsection \<open>The claimed providers and choice of the Ollama URL\<close>

text \<open>
  The eleven supported providers, and the priority order of the URL keys as a search:
  the first truthy value among the candidates, the default when there is none.
\<close>

fun first_truthy :: "pyval list \<Rightarrow> pyval \<Rightarrow> pyval" where
  "first_truthy [] dflt = dflt"
| "first_truthy (v # vs) dflt = (if truthy v then v else first_truthy vs dflt)"

definition supported_providers :: "string list" where
  "supported_providers =
     [''openai'', ''azure'', ''ollama'', ''vertexai'', ''google'', ''cohere'', ''voyageai'',
      ''bedrock'', ''huggingface'', ''watson'', ''custom'']"

section \<open>Example inputs\<close>

text \<open>
  In the examples a float is written as the rational number it is, and \<open>exact_arith\<close> adds
  and divides exactly and converts to an integer by cutting off the fraction. Every
  number in the examples, and every sum and quotient formed of them there, is a multiple
  of \<open>1 / 4\<close> of small size and so a binary64 number: on the examples floating-point
  arithmetic rounds nothing and gives what \<open>exact_arith\<close> gives.
\<close>

definition py_int :: "rat \<Rightarrow> int" where
  "py_int x = (if 0 \<le> x then \<lfloor>x\<rfloor> else \<lceil>x\<rceil>)"

definition exact_arith :: "rat arith" where
  "exact_arith =
     \<lparr>float_sum = sum_list,
      float_div = (\<lambda>x n. x / of_nat n),
      int_div = (\<lambda>i n. Inr (of_int i / of_nat n)),
      float_int = (\<lambda>x. Inr (py_int x))\<rparr>"

text \<open>
  An evaluator for a crew of one task with an output of that task; an evaluator for a crew
  of two tasks with the scores and execution times of two runs, once with run 1 recorded
  first and once with run 2 recorded first; an evaluator for a crew without tasks with one
  run that recorded nothing; and an environment in which the API key is set, \<^verbatim>\<open>urlparse\<close>
  splits the default Ollama URL and finds neither scheme nor netloc in anything else, the
  Watson packages are missing and every embedding function passes validation.
\<close>

definition research_task :: "rat task" where
  "research_task = \<lparr>description = ''research'', expected_output = ''notes'',
                     execution_time = 1 / 2, callback = None\<rparr>"

definition writing_task :: "rat task" where
  "writing_task = \<lparr>description = ''write'', expected_output = ''report'',
                    execution_time = 1 / 4, callback = None\<rparr>"

definition solo_evaluator :: "rat evaluator" where
  "solo_evaluator = \<lparr>crew = [research_task], llm = LLM ''gpt'', self_iteration = None\<rparr>"

definition duo_evaluator :: "rat evaluator" where
  "duo_evaluator =
     \<lparr>crew = [research_task, writing_task], llm = LLM ''gpt'', self_iteration = None\<rparr>"

definition research_output :: task_output where
  "research_output = \<lparr>output_description = ''research'', raw = ''some notes''\<rparr>"

definition two_runs :: "rat evaluator_class" where
  "two_runs =
     \<lparr>tasks_scores = [(1, [9, 8]), (2, [10, 7])],
      run_execution_times = [(1, [1 / 2, 1 / 4]), (2, [3 / 4, 1 / 2])],
      iteration = 0\<rparr>"

definition two_runs_reversed :: "rat evaluator_class" where
  "two_runs_reversed =
     \<lparr>tasks_scores = [(2, [10, 7]), (1, [9, 8])],
      run_execution_times = [(2, [3 / 4, 1 / 2]), (1, [1 / 2, 1 / 4])],
      iteration = 0\<rparr>"

definition no_tasks_evaluator :: "rat evaluator" where
  "no_tasks_evaluator = \<lparr>crew = [], llm = LLM ''gpt'', self_iteration = None\<rparr>"

definition one_empty_run :: "rat evaluator_class" where
  "one_empty_run = \<lparr>tasks_scores = [(1, [])], run_execution_times = [(1, [])], iteration = 0\<rparr>"

definition example_env :: env where
  "example_env =
     \<lparr>getenv = (\<lambda>name. if name = ''OPENAI_API_KEY'' then Some ''sk-test'' else None),
      urlparse = (\<lambda>u. if u = VStr ''http://localhost:11434/api/embeddings''
                       then Inr (''http'', ''localhost:11434'') else Inr ([], [])),
      watson_installed = False,
      validate_embedding_function = (\<lambda>_. None)\<rparr>"

section \<open>Properties of the memory facade\<close>

lemma map_of_dict_set: "map_of (dict_set d k v) = (map_of d)(k \<mapsto> v)"
  by (induction d) auto

lemma heap_saved_addr:
  "heap (snd (metadata_or_new metadata w)) (saved_addr metadata w) = given_metadata metadata w"
  by (simp add: metadata_or_new_def saved_addr_def given_metadata_def new_dict_def
      split: option.splits)

lemma calls_metadata_or_new: "calls (snd (metadata_or_new metadata w)) = calls w"
  by (simp add: metadata_or_new_def new_dict_def split: option.splits)

lemma save_calls:
  "calls (save val metadata agent w) = calls w @ [StorageSave val (saved_addr metadata w)]"
proof (cases "metadata_or_new metadata w")
  case (Pair m w1)
  then have "calls w1 = calls w"
    using calls_metadata_or_new [of metadata w] by simp
  with Pair show ?thesis
    by (simp add: save_def saved_addr_def split: option.splits)
qed

lemma save_heap:
  "map_of (heap (save val metadata agent w) (saved_addr metadata w)) =
     (if agent_truthy agent
      then (map_of (given_metadata metadata w))(''agent'' \<mapsto> VStr (the agent))
      else map_of (given_metadata metadata w))"
proof (cases "metadata_or_new metadata w")
  case (Pair m w1)
  then have "heap w1 m = given_metadata metadata w"
    using heap_saved_addr [of metadata w] by (simp add: saved_addr_def)
  with Pair show ?thesis
    by (simp add: save_def saved_addr_def agent_truthy_def map_of_dict_set
        split: option.splits)
qed

text \<open>
  C5. \<^verbatim>\<open>Memory.search\<close> returns the backend's answer to the same query, limit and score
  threshold, untouched (the answer's type is arbitrary, so nothing can be done to it);
  the backend is called once with these arguments; an omitted limit is 3 and an omitted
  score threshold is 0.35.
\<close>

theorem search_passes_through:
  "fst (search storage_search query (Some l) (Some t) w) = storage_search w query l t
   \<and> fst (search storage_search query None None w) = storage_search w query 3 (35 / 100)
   \<and> fst (search storage_search query (Some l) None w) = storage_search w query l (35 / 100)
   \<and> fst (search storage_search query None (Some t) w) = storage_search w query 3 t
   \<and> calls (snd (search storage_search query (Some l) (Some t) w))
       = calls w @ [StorageSearch query l t]
   \<and> calls (snd (search storage_search query None None w))
       = calls w @ [StorageSearch query 3 (35 / 100)]
   \<and> heap (snd (search storage_search query limit score_threshold w)) = heap w"
  by (simp add: search_def Let_def default_limit_def default_score_threshold_def)

theorem search_passes_through_witness:
  "fst (search (\<lambda>w q l t. [(q, l, t)]) ''tools'' None None
          \<lparr>heap = (\<lambda>_. []), next_addr = 0, calls = []\<rparr>)
     = [(''tools'', 3, 35 / 100)]"
  using search_passes_through
    [of "\<lambda>w q l t. [(q, l, t)]" "''tools''" 0 0 "\<lparr>heap = (\<lambda>_. []), next_addr = 0, calls = []\<rparr>"]
  by (simp add: search_def Let_def)

text \<open>
  C6. \<^verbatim>\<open>Memory.save\<close> calls the backend's \<^verbatim>\<open>save\<close> exactly once, with the value as given
  and with a dict whose entries are those of the given metadata (none when the metadata
  is \<^verbatim>\<open>None\<close>), except that the key \<^verbatim>\<open>"agent"\<close> is mapped to the agent string exactly
  when the agent is truthy. Every other key keeps its value.
\<close>

theorem save_calls_storage_once:
  "calls (save val metadata agent w) = calls w @ [StorageSave val (saved_addr metadata w)]
   \<and> map_of (heap (save val metadata agent w) (saved_addr metadata w)) =
       (if agent_truthy agent
        then (map_of (given_metadata metadata w))(''agent'' \<mapsto> VStr (the agent))
        else map_of (given_metadata metadata w))
   \<and> (\<forall>k. k \<noteq> ''agent'' \<longrightarrow>
         map_of (heap (save val metadata agent w) (saved_addr metadata w)) k
           = map_of (given_metadata metadata w) k)"
  by (simp add: save_calls save_heap)

theorem save_calls_storage_once_witness:
  "calls (save (VStr ''note'') (Some 0) (Some ''researcher'')
            \<lparr>heap = (\<lambda>_. [])(0 := [(''topic'', VStr ''ai'')]), next_addr = 1, calls = []\<rparr>)
     = [StorageSave (VStr ''note'') 0]
   \<and> map_of (heap (save (VStr ''note'') (Some 0) (Some ''researcher'')
            \<lparr>heap = (\<lambda>_. [])(0 := [(''topic'', VStr ''ai'')]), next_addr = 1, calls = []\<rparr>) 0)
        ''topic'' = Some (VStr ''ai'')"
  using save_calls_storage_once
    [of "VStr ''note''" "Some 0" "Some ''researcher''"
        "\<lparr>heap = (\<lambda>_. [])(0 := [(''topic'', VStr ''ai'')]), next_addr = 1, calls = []\<rparr>"]
  by (simp add: saved_addr_def metadata_or_new_def given_metadata_def)

text \<open>
  C8, as stated, fails for an empty dict: \<^verbatim>\<open>metadata or {}\<close> replaces an empty dict of
  the caller by a new one, so the caller's dict at address 0 stays empty and the backend
  receives the new dict at address 1.
\<close>

theorem save_empty_metadata_not_mutated:
  "heap (save (VStr ''note'') (Some 0) (Some ''researcher'')
           \<lparr>heap = (\<lambda>_. []), next_addr = 1, calls = []\<rparr>) 0 = []
   \<and> calls (save (VStr ''note'') (Some 0) (Some ''researcher'')
           \<lparr>heap = (\<lambda>_. []), next_addr = 1, calls = []\<rparr>) = [StorageSave (VStr ''note'') 1]"
  by (simp add: save_def metadata_or_new_def new_dict_def)

text \<open>
  C8, amended. For every non-empty metadata dict of the caller and every truthy agent
  string, \<^verbatim>\<open>Memory.save\<close> assigns into that same dict: afterwards the dict at the caller's
  address maps \<^verbatim>\<open>"agent"\<close> to the agent string and keeps its other entries, the backend
  was handed that same address, and no dict was allocated.
\<close>

theorem save_mutates_callers_dict:
  assumes "heap w a \<noteq> []" and "s \<noteq> []"
  shows "map_of (heap (save val (Some a) (Some s) w) a) = (map_of (heap w a))(''agent'' \<mapsto> VStr s)
         \<and> calls (save val (Some a) (Some s) w) = calls w @ [StorageSave val a]
         \<and> next_addr (save val (Some a) (Some s) w) = next_addr w"
  using assms by (simp add: save_def metadata_or_new_def map_of_dict_set)

theorem save_mutates_callers_dict_witness:
  "map_of (heap (save (VStr ''note'') (Some 0) (Some ''researcher'')
            \<lparr>heap = (\<lambda>_. [])(0 := [(''topic'', VStr ''ai'')]), next_addr = 1, calls = []\<rparr>) 0)
        ''agent'' = Some (VStr ''researcher'')"
  using save_mutates_callers_dict
    [of "\<lparr>heap = (\<lambda>_. [])(0 := [(''topic'', VStr ''ai'')]), next_addr = 1, calls = []\<rparr>" 0
        "''researcher''" "VStr ''note''"]
  by simp

section \<open>Properties of the evaluator\<close>

subsection \<open>Auxiliary facts\<close>

lemma traverse_all_Inr:
  "(\<And>x. x \<in> set xs \<Longrightarrow> f x = Inr (g x)) \<Longrightarrow> traverse f xs = Inr (map g xs)"
  by (induction xs) auto

lemma traverse_map_Inr:
  "(\<And>x. x \<in> set xs \<Longrightarrow> f (h x) = Inr (g x)) \<Longrightarrow> traverse f (map h xs) = Inr (map g xs)"
  by (induction xs) auto

lemma and_then_Inr: "and_then (Inr x) f = f x"
  by (simp add: and_then_def)

lemma mean_arithmetic_mean: "xs \<noteq> [] \<Longrightarrow> mean ar xs = Inr (arithmetic_mean ar xs)"
  by (simp add: mean_def arithmetic_mean_def)

lemma dd_get_entry: "distinct (map fst d) \<Longrightarrow> (k, xs) \<in> set d \<Longrightarrow> dd_get d k = xs"
  by (simp add: dd_get_def)

lemma map_snd_dd_get: "distinct (map fst d) \<Longrightarrow> map snd d = map (dd_get d) (map fst d)"
  by (auto simp: dd_get_entry)

lemma sum_list_same_keys:
  fixes f :: "int \<Rightarrow> int"
  assumes "distinct ks" and "distinct ks'" and "set ks = set ks'"
  shows "sum_list (map f ks) = sum_list (map f ks')"
proof -
  have "sum_list (map f ks) = sum f (set ks)"
    by (rule sum_list_distinct_conv_sum_set) (rule assms(1))
  also have "\<dots> = sum f (set ks')"
    by (simp only: assms(3))
  also have "\<dots> = sum_list (map f ks')"
    by (rule sum_list_distinct_conv_sum_set [symmetric]) (rule assms(2))
  finally show ?thesis .
qed

lemma distinct_runs: "distinct (runs n)"
  by (simp add: runs_def distinct_map inj_on_def)

lemma length_runs: "length (runs n) = n"
  by (simp add: runs_def)

lemma length_by_key:
  assumes "distinct (map fst d)" and "set (map fst d) = set (runs n)"
  shows "length d = n"
proof -
  have "length (map fst d) = card (set (map fst d))"
    by (rule distinct_card [symmetric]) (rule assms(1))
  also have "\<dots> = card (set (runs n))" by (simp only: assms(2))
  also have "\<dots> = length (runs n)" by (rule distinct_card) (rule distinct_runs)
  finally show ?thesis by (simp add: length_runs)
qed

lemma fold_min_same: "\<forall>l\<in>set ls. l = m \<Longrightarrow> fold min ls (m::nat) = m"
  by (induction ls) auto

lemma zip_star_rect:
  assumes "xss \<noteq> []" and "\<forall>xs\<in>set xss. length xs = m"
  shows "zip_star xss = map (\<lambda>i. map (\<lambda>ys. ys ! i) xss) [0..<m]"
proof (cases xss)
  case Nil
  with assms(1) show ?thesis by simp
next
  case (Cons xs rest)
  with assms(2) have "length xs = m" and "\<forall>l\<in>set (map length rest). l = m" by auto
  then have "fold min (map length rest) (length xs) = m"
    using fold_min_same [of "map length rest" m] by simp
  with Cons show ?thesis by (simp add: zip_star_def)
qed

lemma find_task_None_iff:
  "find_task ts d = None \<longleftrightarrow> (\<forall>t\<in>set ts. description t \<noteq> d)"
  by (induction ts) auto

lemma find_task_Some: "find_task ts d = Some t \<Longrightarrow> t \<in> set ts \<and> description t = d"
  by (induction ts) (auto split: if_splits)

lemma dd_get_dd_append:
  "dd_get (dd_append d k v) k' = (if k' = k then dd_get d k @ [v] else dd_get d k')"
  by (induction d) (auto simp: dd_get_def)

lemma evaluate_success:
  assumes "evaluate execute_sync self out cls = (None, cls')"
  shows "\<exists>t q. find_task (crew self) (output_description out) = Some t
           \<and> execute_sync (llm self) t (raw out) = Some q
           \<and> tasks_scores cls' = dd_append (tasks_scores cls) (get_iteration cls self) q
           \<and> run_execution_times cls' =
               dd_append (run_execution_times cls) (get_iteration cls self) (execution_time t)
           \<and> iteration cls' = iteration cls"
  using assms by (auto simp: evaluate_def split: option.splits)

lemma evaluate_cases:
  "(fst (evaluate execute_sync self out cls) \<noteq> None \<longleftrightarrow>
      (\<forall>t\<in>set (crew self). description t \<noteq> output_description out)
      \<or> (\<exists>t. find_task (crew self) (output_description out) = Some t
              \<and> execute_sync (llm self) t (raw out) = None))
   \<and> (\<forall>e. fst (evaluate execute_sync self out cls) = Some e \<longrightarrow>
         (\<exists>m. e = ValueError m) \<and> snd (evaluate execute_sync self out cls) = cls)
   \<and> (fst (evaluate execute_sync self out cls) = None \<longrightarrow>
         (\<exists>t q. find_task (crew self) (output_description out) = Some t
            \<and> execute_sync (llm self) t (raw out) = Some q
            \<and> (\<forall>k. dd_get (tasks_scores (snd (evaluate execute_sync self out cls))) k =
                  (if k = (case self_iteration self of None \<Rightarrow> iteration cls | Some i \<Rightarrow> i)
                   then dd_get (tasks_scores cls) k @ [q]
                   else dd_get (tasks_scores cls) k))
            \<and> (\<forall>k. dd_get (run_execution_times (snd (evaluate execute_sync self out cls))) k =
                  (if k = (case self_iteration self of None \<Rightarrow> iteration cls | Some i \<Rightarrow> i)
                   then dd_get (run_execution_times cls) k @ [execution_time t]
                   else dd_get (run_execution_times cls) k))))"
proof (cases "find_task (crew self) (output_description out)")
  case None
  then show ?thesis
    by (simp add: evaluate_def find_task_None_iff [symmetric])
next
  case (Some t)
  then have "\<not> (\<forall>t\<in>set (crew self). description t \<noteq> output_description out)"
    using find_task_None_iff [of "crew self" "output_description out"] by simp
  with Some show ?thesis
    by (cases "execute_sync (llm self) t (raw out)")
      (simp_all add: evaluate_def dd_get_dd_append get_iteration_def)
qed

lemma print_rect:
  assumes n: "1 \<le> n"
    and ks: "distinct (map fst (tasks_scores cls))" "set (map fst (tasks_scores cls)) = set (runs n)"
    and kt: "distinct (map fst (run_execution_times cls))"
            "set (map fst (run_execution_times cls)) = set (runs n)"
    and len: "\<forall>run\<in>set (runs n). length (dd_get (tasks_scores cls) run) = length (crew self)"
    and m: "crew self \<noteq> []"
    and tr: "\<forall>run\<in>set (runs n).
               int_of_sum ar (dd_get (run_execution_times cls) run) = Inr (run_time run)"
    and q: "int_div ar (sum_list (map run_time (runs n))) n = Inr q"
    and avg: "float_int ar q = Inr avg"
  shows "print_crew_evaluation_result ar self cls =
     Inr \<lparr>task_rows =
            map (\<lambda>i. (map (\<lambda>run. dd_get (tasks_scores cls) run ! i) (runs n),
                      arithmetic_mean ar
                        (map (\<lambda>run. dd_get (tasks_scores cls) run ! i)
                           (map fst (tasks_scores cls)))))
              [0..<length (crew self)],
          crew_scores = map (\<lambda>run. arithmetic_mean ar (dd_get (tasks_scores cls) run)) (runs n),
          crew_average =
            arithmetic_mean ar
              (map (\<lambda>i. arithmetic_mean ar
                          (map (\<lambda>run. dd_get (tasks_scores cls) run ! i)
                             (map fst (tasks_scores cls))))
                 [0..<length (crew self)]),
          run_exec_times = map run_time (map fst (run_execution_times cls)),
          execution_time_avg = avg\<rparr>"
proof -
  define d where "d = tasks_scores cls"
  define rt where "rt = run_execution_times cls"
  define k where "k = length (crew self)"
  define row where "row = (\<lambda>i. map (\<lambda>run. dd_get d run ! i) (runs n))"
  define col where "col = (\<lambda>i. map (\<lambda>run. dd_get d run ! i) (map fst d))"
  define avgs where "avgs = map (\<lambda>i. arithmetic_mean ar (col i)) [0..<k]"
  have ld: "length d = n" unfolding d_def by (rule length_by_key) (rule ks)+
  have lrt: "length rt = n" unfolding rt_def by (rule length_by_key) (rule kt)+
  have k0: "0 < k" using m by (simp add: k_def)
  have dne: "map snd d \<noteq> []" using ld n by auto
  have rect: "\<forall>xs\<in>set (map snd d). length xs = k"
  proof
    fix xs assume "xs \<in> set (map snd d)"
    then obtain r where r: "(r, xs) \<in> set d" by auto
    then have "r \<in> set (runs n)" using ks(2) by (force simp: d_def)
    moreover have "dd_get d r = xs" using r ks(1) by (simp add: d_def dd_get_entry)
    ultimately show "length xs = k" using len by (auto simp: d_def k_def)
  qed
  have zs: "zip_star (map snd d) = map (\<lambda>i. map (\<lambda>ys. ys ! i) (map snd d)) [0..<k]"
    by (rule zip_star_rect) (rule dne, rule rect)
  have colmean: "mean ar (map (\<lambda>ys. ys ! i) (map snd d)) = Inr (arithmetic_mean ar (col i))"
    for i
  proof -
    have "map (\<lambda>ys. ys ! i) (map snd d) = col i"
      using ks(1) by (simp add: col_def d_def map_snd_dd_get comp_def)
    moreover have "map (\<lambda>ys. ys ! i) (map snd d) \<noteq> []" using dne by simp
    ultimately show ?thesis by (simp add: mean_arithmetic_mean)
  qed
  have s1: "traverse (mean ar) (zip_star (map snd d)) = Inr avgs"
    unfolding zs avgs_def by (rule traverse_map_Inr) (rule colmean)
  have s2: "mean ar avgs = Inr (arithmetic_mean ar avgs)"
    using k0 by (intro mean_arithmetic_mean) (simp add: avgs_def)
  have cell: "list_index (dd_get d run) i = Inr (dd_get d run ! i)"
    if "run \<in> set (runs n)" and "i < k" for run i
    using that len by (simp add: list_index_def d_def k_def)
  have one_row: "and_then (traverse (\<lambda>run. list_index (dd_get d run) i) (runs n)) (\<lambda>task_scores.
             and_then (list_index avgs i) (\<lambda>avg_score. Inr (task_scores, avg_score)))
           = Inr (row i, arithmetic_mean ar (col i))"
    if "i \<in> set [0..<k]" for i
  proof -
    from that have ik: "i < k" by simp
    have "traverse (\<lambda>run. list_index (dd_get d run) i) (runs n) = Inr (row i)"
      unfolding row_def by (rule traverse_all_Inr) (rule cell, assumption, rule ik)
    moreover have "list_index avgs i = Inr (arithmetic_mean ar (col i))"
      using ik by (simp add: list_index_def avgs_def)
    ultimately show ?thesis by (simp add: and_then_Inr)
  qed
  have s3: "traverse (\<lambda>i.
              and_then (traverse (\<lambda>run. list_index (dd_get d run) i) (runs n)) (\<lambda>task_scores.
              and_then (list_index avgs i) (\<lambda>avg_score. Inr (task_scores, avg_score))))
              [0..<k]
            = Inr (map (\<lambda>i. (row i, arithmetic_mean ar (col i))) [0..<k])"
    by (rule traverse_all_Inr) (rule one_row)
  have s4: "traverse (\<lambda>run. mean ar (dd_get d run)) (runs n)
            = Inr (map (\<lambda>run. arithmetic_mean ar (dd_get d run)) (runs n))"
  proof (rule traverse_all_Inr)
    fix run assume "run \<in> set (runs n)"
    then have "dd_get d run \<noteq> []" using len k0 by (auto simp: d_def k_def)
    then show "mean ar (dd_get d run) = Inr (arithmetic_mean ar (dd_get d run))"
      by (rule mean_arithmetic_mean)
  qed
  define times where "times = map run_time (map fst rt)"
  have s5: "traverse (\<lambda>(_, tasks_exec_times). int_of_sum ar tasks_exec_times) rt = Inr times"
  proof -
    have "(case x of (_, ts) \<Rightarrow> int_of_sum ar ts) = Inr (run_time (fst x))"
      if "x \<in> set rt" for x
    proof (cases x)
      case (Pair r ts)
      with that have "r \<in> set (runs n)" using kt(2) by (force simp: rt_def)
      moreover have "dd_get rt r = ts" using that Pair kt(1) by (simp add: rt_def dd_get_entry)
      ultimately show ?thesis using tr Pair by (auto simp: rt_def)
    qed
    then have "traverse (\<lambda>(_, tasks_exec_times). int_of_sum ar tasks_exec_times) rt
                 = Inr (map (\<lambda>x. run_time (fst x)) rt)"
      by (rule traverse_all_Inr)
    then show ?thesis by (simp add: times_def comp_def)
  qed
  have tne: "times \<noteq> []" using lrt n by (auto simp: times_def)
  have lt: "length times = n" by (simp add: times_def lrt)
  have "sum_list times = sum_list (map run_time (runs n))"
    unfolding times_def using kt distinct_runs [of n]
    by (intro sum_list_same_keys) (simp_all add: rt_def)
  then have s6: "int_of_mean ar times = Inr avg"
    using tne lt q avg by (simp add: int_of_mean_def and_then_Inr)
  show ?thesis
    unfolding print_crew_evaluation_result_def d_def [symmetric] rt_def [symmetric]
      k_def [symmetric] ld
    apply (simp only: s1 and_then_Inr s2 s3 s4 s5 s6)
    apply (simp add: avgs_def col_def row_def times_def comp_def)
    done
qed

lemma floor_rat_numeral: "\<lfloor>numeral a / numeral b :: rat\<rfloor> = numeral a div numeral b"
  using floor_divide_of_int_eq [of "numeral a" "numeral b", where ?'a = rat] by simp

lemma floor_rat_one: "\<lfloor>1 / numeral b :: rat\<rfloor> = 1 div numeral b"
  using floor_divide_of_int_eq [of 1 "numeral b", where ?'a = rat] by simp

lemma runs_0: "runs 0 = []"
  by (simp add: runs_def)

lemma runs_Suc: "runs (Suc n) = runs n @ [int n + 1]"
  by (simp add: runs_def)

lemma runs_1: "runs 1 = [1]"
  using runs_Suc [of 0] by (simp add: runs_0)

lemma runs_2: "runs 2 = [1, 2]"
  using runs_Suc [of "Suc 0"] runs_1 by (simp add: numeral_2_eq_2)

lemma upt_0_2: "[0..<2] = [0, 1]"
  by (simp add: numeral_2_eq_2)

subsection \<open>evaluate\<close>

text \<open>
  C7. \<^verbatim>\<open>evaluate\<close> raises exactly when no task of the crew has the description of the
  task output, or the result of the evaluation task is not a
  \<^verbatim>\<open>TaskEvaluationPydanticOutput\<close>; what it raises is then a \<^verbatim>\<open>ValueError\<close> and the class
  state is as before. When it does not raise, the list of \<^verbatim>\<open>tasks_scores\<close> under the
  current iteration has grown by the quality, the list of \<^verbatim>\<open>run_execution_times\<close> under
  the current iteration has grown by the execution time of the task found, and the lists
  under every other key are as before. The current iteration is the one that
  \<^verbatim>\<open>set_iteration\<close> last gave to this instance, and the iteration of the class when
  \<^verbatim>\<open>set_iteration\<close> has not run on it: after \<^verbatim>\<open>set_iteration(i)\<close> a successful evaluation
  appends under the key \<open>i\<close>, and \<^verbatim>\<open>set_iteration\<close> changes neither the crew nor the
  language model nor the class.
\<close>

theorem evaluate_raises_ValueError_iff:
  "(fst (evaluate execute_sync self out cls) \<noteq> None \<longleftrightarrow>
      (\<forall>t\<in>set (crew self). description t \<noteq> output_description out)
      \<or> (\<exists>t. find_task (crew self) (output_description out) = Some t
              \<and> execute_sync (llm self) t (raw out) = None))
   \<and> (\<forall>e. fst (evaluate execute_sync self out cls) = Some e \<longrightarrow>
         (\<exists>m. e = ValueError m) \<and> snd (evaluate execute_sync self out cls) = cls)
   \<and> (fst (evaluate execute_sync self out cls) = None \<longrightarrow>
         (\<exists>t q. find_task (crew self) (output_description out) = Some t
            \<and> execute_sync (llm self) t (raw out) = Some q
            \<and> (\<forall>k. dd_get (tasks_scores (snd (evaluate execute_sync self out cls))) k =
                  (if k = (case self_iteration self of None \<Rightarrow> iteration cls | Some i \<Rightarrow> i)
                   then dd_get (tasks_scores cls) k @ [q]
                   else dd_get (tasks_scores cls) k))
            \<and> (\<forall>k. dd_get (run_execution_times (snd (evaluate execute_sync self out cls))) k =
                  (if k = (case self_iteration self of None \<Rightarrow> iteration cls | Some i \<Rightarrow> i)
                   then dd_get (run_execution_times cls) k @ [execution_time t]
                   else dd_get (run_execution_times cls) k))))
   \<and> self_iteration (set_iteration i self) = Some i
   \<and> crew (set_iteration i self) = crew self
   \<and> llm (set_iteration i self) = llm self
   \<and> (fst (evaluate execute_sync (set_iteration i self) out cls) = None \<longrightarrow>
         (\<exists>t q. find_task (crew self) (output_description out) = Some t
            \<and> execute_sync (llm self) t (raw out) = Some q
            \<and> dd_get (tasks_scores (snd (evaluate execute_sync (set_iteration i self) out cls))) i
                = dd_get (tasks_scores cls) i @ [q]
            \<and> dd_get (run_execution_times
                        (snd (evaluate execute_sync (set_iteration i self) out cls))) i
                = dd_get (run_execution_times cls) i @ [execution_time t]
            \<and> (\<forall>k. k \<noteq> i \<longrightarrow>
                  dd_get (tasks_scores (snd (evaluate execute_sync (set_iteration i self) out cls))) k
                    = dd_get (tasks_scores cls) k
                  \<and> dd_get (run_execution_times
                        (snd (evaluate execute_sync (set_iteration i self) out cls))) k
                    = dd_get (run_execution_times cls) k)))"
proof -
  have s: "self_iteration (set_iteration i self) = Some i"
    "crew (set_iteration i self) = crew self" "llm (set_iteration i self) = llm self"
    by (simp_all add: set_iteration_def)
  have last: "fst (evaluate execute_sync (set_iteration i self) out cls) = None \<longrightarrow>
         (\<exists>t q. find_task (crew self) (output_description out) = Some t
            \<and> execute_sync (llm self) t (raw out) = Some q
            \<and> dd_get (tasks_scores (snd (evaluate execute_sync (set_iteration i self) out cls))) i
                = dd_get (tasks_scores cls) i @ [q]
            \<and> dd_get (run_execution_times
                        (snd (evaluate execute_sync (set_iteration i self) out cls))) i
                = dd_get (run_execution_times cls) i @ [execution_time t]
            \<and> (\<forall>k. k \<noteq> i \<longrightarrow>
                  dd_get (tasks_scores (snd (evaluate execute_sync (set_iteration i self) out cls))) k
                    = dd_get (tasks_scores cls) k
                  \<and> dd_get (run_execution_times
                        (snd (evaluate execute_sync (set_iteration i self) out cls))) k
                    = dd_get (run_execution_times cls) k))"
  proof
    assume ok: "fst (evaluate execute_sync (set_iteration i self) out cls) = None"
    from evaluate_cases [of execute_sync "set_iteration i self" out cls,
        THEN conjunct2, THEN conjunct2] ok
    obtain t q where
      "find_task (crew (set_iteration i self)) (output_description out) = Some t"
      "execute_sync (llm (set_iteration i self)) t (raw out) = Some q"
      "\<forall>k. dd_get (tasks_scores (snd (evaluate execute_sync (set_iteration i self) out cls))) k =
                  (if k = (case self_iteration (set_iteration i self) of
                             None \<Rightarrow> iteration cls | Some i \<Rightarrow> i)
                   then dd_get (tasks_scores cls) k @ [q]
                   else dd_get (tasks_scores cls) k)"
      "\<forall>k. dd_get (run_execution_times
                     (snd (evaluate execute_sync (set_iteration i self) out cls))) k =
                  (if k = (case self_iteration (set_iteration i self) of
                             None \<Rightarrow> iteration cls | Some i \<Rightarrow> i)
                   then dd_get (run_execution_times cls) k @ [execution_time t]
                   else dd_get (run_execution_times cls) k)"
      by blast
    then show "\<exists>t q. find_task (crew self) (output_description out) = Some t
            \<and> execute_sync (llm self) t (raw out) = Some q
            \<and> dd_get (tasks_scores (snd (evaluate execute_sync (set_iteration i self) out cls))) i
                = dd_get (tasks_scores cls) i @ [q]
            \<and> dd_get (run_execution_times
                        (snd (evaluate execute_sync (set_iteration i self) out cls))) i
                = dd_get (run_execution_times cls) i @ [execution_time t]
            \<and> (\<forall>k. k \<noteq> i \<longrightarrow>
                  dd_get (tasks_scores (snd (evaluate execute_sync (set_iteration i self) out cls))) k
                    = dd_get (tasks_scores cls) k
                  \<and> dd_get (run_execution_times
                        (snd (evaluate execute_sync (set_iteration i self) out cls))) k
                    = dd_get (run_execution_times cls) k)"
      by (simp add: s)
  qed
  note main = evaluate_cases [of execute_sync self out cls]
  show ?thesis
    by (rule conjI [OF main [THEN conjunct1]
          conjI [OF main [THEN conjunct2, THEN conjunct1]
          conjI [OF main [THEN conjunct2, THEN conjunct2]
          conjI [OF s(1) conjI [OF s(2) conjI [OF s(3) last]]]]]])
qed

theorem evaluate_raises_ValueError_iff_witness:
  "fst (evaluate (\<lambda>_ _ _. Some 9) (set_iteration 2 solo_evaluator) research_output class_body)
     = None
   \<and> snd (evaluate (\<lambda>_ _ _. Some 9) (set_iteration 2 solo_evaluator) research_output class_body)
     = \<lparr>tasks_scores = [(2, [9])], run_execution_times = [(2, [1 / 2])], iteration = 0\<rparr>
   \<and> (\<exists>(t :: rat task) q. dd_get (tasks_scores
          (snd (evaluate (\<lambda>_ _ _. Some 9) (set_iteration 2 solo_evaluator) research_output
                  class_body))) 2 = dd_get (tasks_scores class_body) 2 @ [q]
        \<and> dd_get (run_execution_times
          (snd (evaluate (\<lambda>_ _ _. Some 9) (set_iteration 2 solo_evaluator) research_output
                  class_body))) 2 = dd_get (run_execution_times class_body) 2 @ [execution_time t])"
proof -
  have a: "evaluate (\<lambda>_ _ _. Some 9) (set_iteration 2 solo_evaluator) research_output class_body
     = (None, \<lparr>tasks_scores = [(2, [9])], run_execution_times = [(2, [1 / 2])],
               iteration = 0\<rparr>)"
    by (simp add: evaluate_def class_body_def get_iteration_def set_iteration_def
        solo_evaluator_def research_task_def research_output_def)
  then have ok:
    "fst (evaluate (\<lambda>_ _ _. Some 9) (set_iteration 2 solo_evaluator) research_output class_body)
       = None"
    by simp
  note t = evaluate_raises_ValueError_iff
    [of "\<lambda>_ _ _. Some 9" solo_evaluator research_output class_body 2]
  from t [THEN conjunct2, THEN conjunct2, THEN conjunct2, THEN conjunct2, THEN conjunct2,
      THEN conjunct2, THEN mp, OF ok]
  have "\<exists>(t :: rat task) q. dd_get (tasks_scores
          (snd (evaluate (\<lambda>_ _ _. Some 9) (set_iteration 2 solo_evaluator) research_output
                  class_body))) 2 = dd_get (tasks_scores class_body) 2 @ [q]
        \<and> dd_get (run_execution_times
          (snd (evaluate (\<lambda>_ _ _. Some 9) (set_iteration 2 solo_evaluator) research_output
                  class_body))) 2 = dd_get (run_execution_times class_body) 2 @ [execution_time t]"
    by (elim exE conjE) (intro exI conjI, assumption+)
  with a show ?thesis by simp
qed

subsection \<open>Class attributes\<close>

text \<open>
  C9. \<^verbatim>\<open>tasks_scores\<close>, \<^verbatim>\<open>run_execution_times\<close> and \<^verbatim>\<open>iteration\<close> belong to the class and
  \<^verbatim>\<open>__init__\<close> leaves them as they are: the class state after constructing an evaluator
  is the class state before, and the new instance reads the iteration of the class.
  Hence a score recorded through one instance is still there for an instance constructed
  afterwards: when an evaluation through \<open>e1\<close> succeeds, a second evaluator is constructed
  and an evaluation through it succeeds, the lists under the iteration of the class hold
  what they held at the start followed by both new entries.
\<close>

theorem evaluator_init_keeps_class_state:
  "snd (evaluator_init c l cls) = cls
   \<and> get_iteration (snd (evaluator_init c l cls)) (fst (evaluator_init c l cls)) = iteration cls
   \<and> (evaluate execute_sync e1 out1 cls = (None, cls1)
        \<and> evaluate execute_sync (fst (evaluator_init c l cls1)) out2 (snd (evaluator_init c l cls1)) = (None, cls2)
        \<and> self_iteration e1 = None \<longrightarrow>
        (\<exists>q1 q2 t1 t2.
           dd_get (tasks_scores cls2) (iteration cls)
             = dd_get (tasks_scores cls) (iteration cls) @ [q1, q2]
           \<and> dd_get (run_execution_times cls2) (iteration cls)
             = dd_get (run_execution_times cls) (iteration cls) @ [t1, t2]))"
proof -
  have a: "snd (evaluator_init c l cls) = cls" for cls :: "'a evaluator_class"
    by (simp add: evaluator_init_def)
  have b: "get_iteration (snd (evaluator_init c l cls)) (fst (evaluator_init c l cls)) = iteration cls"
    for cls :: "'a evaluator_class"
    by (simp add: evaluator_init_def get_iteration_def)
  have c: "\<exists>q1 q2 t1 t2.
           dd_get (tasks_scores cls2) (iteration cls)
             = dd_get (tasks_scores cls) (iteration cls) @ [q1, q2]
           \<and> dd_get (run_execution_times cls2) (iteration cls)
             = dd_get (run_execution_times cls) (iteration cls) @ [t1, t2]"
    if h1: "evaluate execute_sync e1 out1 cls = (None, cls1)"
      and h2: "evaluate execute_sync (fst (evaluator_init c l cls1)) out2 (snd (evaluator_init c l cls1)) = (None, cls2)"
      and h3: "self_iteration e1 = None"
  proof -
    from evaluate_success [OF h1] h3 obtain q1 t1 where
      s1: "tasks_scores cls1 = dd_append (tasks_scores cls) (iteration cls) q1"
      and r1: "run_execution_times cls1 = dd_append (run_execution_times cls) (iteration cls) t1"
      and i1: "iteration cls1 = iteration cls"
      by (auto simp: get_iteration_def)
    from evaluate_success [OF h2] a [of cls1] b [of cls1] i1 obtain q2 t2 where
      s2: "tasks_scores cls2 = dd_append (tasks_scores cls1) (iteration cls) q2"
      and r2: "run_execution_times cls2 = dd_append (run_execution_times cls1) (iteration cls) t2"
      by auto
    have "dd_get (tasks_scores cls2) (iteration cls)
            = dd_get (tasks_scores cls) (iteration cls) @ [q1, q2]"
      by (simp add: s1 s2 dd_get_dd_append)
    moreover have "dd_get (run_execution_times cls2) (iteration cls)
            = dd_get (run_execution_times cls) (iteration cls) @ [t1, t2]"
      by (simp add: r1 r2 dd_get_dd_append)
    ultimately show ?thesis by blast
  qed
  from a b c show ?thesis by blast
qed

theorem evaluator_init_keeps_class_state_witness:
  "evaluate (\<lambda>_ _ _. Some 9) solo_evaluator research_output class_body
     = (None, \<lparr>tasks_scores = [(0, [9])], run_execution_times = [(0, [1 / 2])],
               iteration = 0\<rparr>)
   \<and> evaluate (\<lambda>_ _ _. Some 9)
       (fst (evaluator_init [research_task] (ModelName ''gpt'')
          \<lparr>tasks_scores = [(0, [9])], run_execution_times = [(0, [1 / 2])], iteration = 0\<rparr>))
       research_output
       (snd (evaluator_init [research_task] (ModelName ''gpt'')
          \<lparr>tasks_scores = [(0, [9])], run_execution_times = [(0, [1 / 2])], iteration = 0\<rparr>))
     = (None, \<lparr>tasks_scores = [(0, [9, 9])], run_execution_times = [(0, [1 / 2, 1 / 2])],
               iteration = 0\<rparr>)
   \<and> (\<exists>q1 q2 t1 t2.
         dd_get [(0, [9, 9])] (iteration (class_body :: rat evaluator_class))
           = dd_get (tasks_scores (class_body :: rat evaluator_class))
               (iteration (class_body :: rat evaluator_class)) @ [q1, q2]
         \<and> dd_get [(0, [1 / 2, 1 / 2])] (iteration (class_body :: rat evaluator_class))
           = dd_get (run_execution_times (class_body :: rat evaluator_class))
               (iteration (class_body :: rat evaluator_class)) @ [t1, t2])"
proof -
  let ?cls1 = "\<lparr>tasks_scores = [(0, [9])], run_execution_times = [(0, [1 / 2])],
                 iteration = 0\<rparr>"
  let ?cls2 = "\<lparr>tasks_scores = [(0, [9, 9])], run_execution_times = [(0, [1 / 2, 1 / 2])],
                 iteration = 0\<rparr>"
  have a: "evaluate (\<lambda>_ _ _. Some 9) solo_evaluator research_output class_body = (None, ?cls1)"
    by (simp add: evaluate_def class_body_def get_iteration_def solo_evaluator_def
        research_task_def research_output_def)
  have b: "evaluate (\<lambda>_ _ _. Some 9)
       (fst (evaluator_init [research_task] (ModelName ''gpt'') ?cls1)) research_output
       (snd (evaluator_init [research_task] (ModelName ''gpt'') ?cls1)) = (None, ?cls2)"
    by (simp add: evaluate_def evaluator_init_def setup_for_evaluating_def get_iteration_def
        research_task_def research_output_def)
  have c: "self_iteration solo_evaluator = None"
    by (simp add: solo_evaluator_def)
  from a b c evaluator_init_keeps_class_state
    [of "[research_task]" "ModelName ''gpt''" class_body "\<lambda>_ _ _. Some 9" solo_evaluator
        research_output ?cls1 research_output ?cls2]
  show ?thesis by simp
qed

subsection \<open>print_crew_evaluation_result\<close>

text \<open>
  C10. With no score recorded, \<^verbatim>\<open>zip\<close> is given nothing, the list of task averages is
  empty and the crew average divides by its length: \<^verbatim>\<open>print_crew_evaluation_result\<close>
  raises \<^verbatim>\<open>ZeroDivisionError\<close>, whatever the crew and the execution times are.
\<close>

theorem print_without_scores:
  "tasks_scores cls = [] \<Longrightarrow> print_crew_evaluation_result ar self cls = Inl ZeroDivisionError"
  by (simp add: print_crew_evaluation_result_def zip_star_def mean_def and_then_def)

theorem print_without_scores_witness:
  "print_crew_evaluation_result exact_arith solo_evaluator class_body = Inl ZeroDivisionError"
  using print_without_scores [of class_body exact_arith solo_evaluator]
  by (simp add: class_body_def)

text \<open>
  C1, as stated, fails on two counts. The code converts the summed execution time of
  each run to an integer before it averages them: with the sums \<open>3 / 4\<close> and \<open>5 / 4\<close> it
  shows the average 0, where the conversion of the mean of the sums gives 1. And for a
  crew without tasks, with an empty score list under run 1, the crew average divides by
  zero and nothing is shown.
\<close>

theorem print_truncates_each_run:
  "print_crew_evaluation_result exact_arith duo_evaluator two_runs
     = Inr \<lparr>task_rows = [([9, 10], 19 / 2), ([8, 7], 15 / 2)],
            crew_scores = [17 / 2, 17 / 2], crew_average = 17 / 2,
            run_exec_times = [0, 1], execution_time_avg = 0\<rparr>
   \<and> claimed_execution_time_avg exact_arith two_runs 2 = Inr 1
   \<and> print_crew_evaluation_result exact_arith no_tasks_evaluator one_empty_run
     = Inl ZeroDivisionError"
  by (simp add: print_crew_evaluation_result_def zip_star_def mean_def and_then_def
      int_of_sum_def int_of_mean_def exact_arith_def
      dd_get_def list_index_def py_int_def claimed_execution_time_avg_def arithmetic_mean_def
      runs_0 runs_Suc runs_1 runs_2 floor_rat_numeral floor_rat_one duo_evaluator_def
      two_runs_def no_tasks_evaluator_def one_empty_run_def)

text \<open>
  C1, amended. Let \<^verbatim>\<open>tasks_scores\<close> and \<^verbatim>\<open>run_execution_times\<close> have exactly the keys
  \<open>1..n\<close> with \<open>n \<ge> 1\<close>, recorded in any order, let the crew have at least one task and let
  every run hold one score per task. Let \<open>run_time run\<close> be the summed execution time of
  a run converted to an integer, let \<open>q\<close> be the sum of these integers over the runs
  \<open>1..n\<close> divided by \<open>n\<close>, and let \<open>avg\<close> be \<open>q\<close> converted to an integer (the three
  hypotheses say that these conversions and this division raise nothing). Then the table
  is printed, and in it the average of task \<open>i\<close> is the arithmetic mean of the scores of
  task \<open>i\<close> in the \<open>n\<close> runs, summed in the order in which the runs were recorded; the
  crew's score in run \<open>1..n\<close> is the arithmetic mean of the scores of that run; the crew's
  average is the arithmetic mean of the task averages; and the average execution time is
  \<open>avg\<close>. All sums, quotients and conversions are those of the interpreter, whatever they
  are. Nothing is said of the execution times shown for the single runs.
\<close>

theorem print_crew_evaluation_result_means:
  assumes "1 \<le> n"
    and "distinct (map fst (tasks_scores cls))"
    and "set (map fst (tasks_scores cls)) = set (runs n)"
    and "distinct (map fst (run_execution_times cls))"
    and "set (map fst (run_execution_times cls)) = set (runs n)"
    and "\<forall>run\<in>set (runs n). length (dd_get (tasks_scores cls) run) = length (crew self)"
    and "crew self \<noteq> []"
    and "\<forall>run\<in>set (runs n).
           int_of_sum ar (dd_get (run_execution_times cls) run) = Inr (run_time run)"
    and "int_div ar (sum_list (map run_time (runs n))) n = Inr q"
    and "float_int ar q = Inr avg"
  shows "\<exists>t. print_crew_evaluation_result ar self cls = Inr t
     \<and> map snd (task_rows t)
         = map (\<lambda>i. arithmetic_mean ar
                      (map (\<lambda>run. dd_get (tasks_scores cls) run ! i)
                         (map fst (tasks_scores cls))))
             [0..<length (crew self)]
     \<and> map fst (task_rows t)
         = map (\<lambda>i. map (\<lambda>run. dd_get (tasks_scores cls) run ! i) (runs n))
             [0..<length (crew self)]
     \<and> crew_scores t = map (\<lambda>run. arithmetic_mean ar (dd_get (tasks_scores cls) run)) (runs n)
     \<and> crew_average t = arithmetic_mean ar (map snd (task_rows t))
     \<and> execution_time_avg t = avg"
  unfolding print_rect [OF assms] by (simp add: comp_def)

theorem print_crew_evaluation_result_means_witness:
  "\<exists>t. print_crew_evaluation_result exact_arith duo_evaluator two_runs_reversed = Inr t
       \<and> map snd (task_rows t) = [19 / 2, 15 / 2]
       \<and> map fst (task_rows t) = [[9, 10], [8, 7]]
       \<and> crew_scores t = [17 / 2, 17 / 2]
       \<and> crew_average t = 17 / 2
       \<and> execution_time_avg t = 0"
proof -
  have "1 \<le> (2::nat)"
    and "distinct (map fst (tasks_scores two_runs_reversed))"
    and "set (map fst (tasks_scores two_runs_reversed)) = set (runs 2)"
    and "distinct (map fst (run_execution_times two_runs_reversed))"
    and "set (map fst (run_execution_times two_runs_reversed)) = set (runs 2)"
    and "\<forall>run\<in>set (runs 2).
           length (dd_get (tasks_scores two_runs_reversed) run) = length (crew duo_evaluator)"
    and "crew duo_evaluator \<noteq> []"
    and "\<forall>run\<in>set (runs 2).
           int_of_sum exact_arith (dd_get (run_execution_times two_runs_reversed) run)
             = Inr (run - 1)"
    and "int_div exact_arith (sum_list (map (\<lambda>run. run - 1) (runs 2))) 2 = Inr (1 / 2)"
    and "float_int exact_arith (1 / 2) = Inr 0"
    by (auto simp: two_runs_reversed_def duo_evaluator_def runs_2 dd_get_def int_of_sum_def
        exact_arith_def py_int_def floor_rat_numeral floor_rat_one)
  from print_crew_evaluation_result_means [OF this] show ?thesis
    by (auto simp: two_runs_reversed_def duo_evaluator_def runs_2 upt_0_2 dd_get_def
        arithmetic_mean_def exact_arith_def)
qed

section \<open>Properties of the embedding configurator\<close>

subsection \<open>Auxiliary facts\<close>

lemma ollama_url_first_truthy:
  "ollama_url config =
     first_truthy (map (dict_get config) [''url'', ''api_url'', ''base_url'', ''api_base''])
       (VStr ''http://localhost:11434/api/embeddings'')"
  by (simp add: ollama_url_def py_or_def default_ollama_url_def)

lemma validate_url_cases:
  "validate_url e url = Inr v \<longleftrightarrow>
     v = url \<and> (\<exists>scheme netloc. urlparse e url = Inr (scheme, netloc) \<and> scheme \<noteq> [] \<and> netloc \<noteq> [])"
  by (auto simp: validate_url_def split: sum.splits)

lemma validate_url_error: "validate_url e url = Inl err \<Longrightarrow> \<exists>m. err = ValueError m"
  by (auto simp: validate_url_def split: sum.splits if_splits)

lemma lookup_unsupported:
  assumes "map fst (embedding_functions self) = supported_providers"
    and "provider \<notin> VStr ` set supported_providers"
    and "hashable provider"
  shows "lookup_provider self provider = Inr None"
proof (cases provider)
  case (VStr s)
  with assms(2) have "s \<notin> set (map fst (embedding_functions self))"
    by (auto simp: assms(1))
  then have "map_of (embedding_functions self) s = None"
    by (simp add: map_of_eq_None_iff)
  with VStr show ?thesis by (simp add: lookup_provider_def)
qed (use assms(3) in \<open>simp_all add: lookup_provider_def\<close>)

lemma table_keys: "map fst (embedding_functions configurator_init) = supported_providers"
  by (simp add: configurator_init_def supported_providers_def)

lemma config_entry:
  "map_of ec ''config'' = Some (VDict config) \<or> map_of ec ''config'' = None \<and> config = []
   \<Longrightarrow> dict_get_default ec ''config'' (VDict []) = VDict config"
  by (auto simp: dict_get_default_def)

lemma dispatch_with_model_name:
  assumes "dict_get_default ec ''config'' (VDict []) = VDict config"
    and "map_of ec ''provider'' = Some (VStr p)"
    and "p \<noteq> ''custom''"
    and "map_of (embedding_functions self) p = Some (WithModelName g)"
  shows "configure_embedder self e (Some ec) = g e config (dict_get config ''model'')"
  using assms
  by (simp add: configure_embedder_def dict_get_def py_get_def and_then_def
      lookup_provider_def call_with_model_name_def)

lemma dispatch_custom:
  assumes "map_of ec ''provider'' = Some (VStr ''custom'')"
    and "map_of (embedding_functions self) ''custom'' = Some (ConfigOnly g)"
  shows "configure_embedder self e (Some ec)
           = g e (case map_of ec ''config'' of None \<Rightarrow> VDict [] | Some c \<Rightarrow> c)"
  using assms
  by (simp add: configure_embedder_def dict_get_def dict_get_default_def and_then_def
      lookup_provider_def call_config_only_def)

lemma dispatch_no_dict:
  assumes "map_of ec ''config'' = Some c \<and> (\<forall>d. c \<noteq> VDict d)
           \<and> map_of ec ''provider'' \<noteq> Some (VStr ''custom'')"
  shows "configure_embedder self e (Some ec) = Inl AttributeError"
proof -
  have "dict_get ec ''provider'' \<noteq> VStr ''custom''"
    using assms by (auto simp: dict_get_def split: option.splits)
  moreover have "py_get c ''model'' = Inl AttributeError"
    using assms by (cases c) (simp_all add: py_get_def)
  ultimately show ?thesis
    using assms by (simp add: configure_embedder_def dict_get_default_def and_then_def)
qed

lemma table_entries:
  "map_of (embedding_functions configurator_init) ''openai''
     = Some (WithModelName configure_openai)"
  "map_of (embedding_functions configurator_init) ''azure''
     = Some (WithModelName configure_azure)"
  "map_of (embedding_functions configurator_init) ''ollama''
     = Some (WithModelName configure_ollama)"
  "map_of (embedding_functions configurator_init) ''vertexai''
     = Some (WithModelName configure_vertexai)"
  "map_of (embedding_functions configurator_init) ''google''
     = Some (WithModelName configure_google)"
  "map_of (embedding_functions configurator_init) ''cohere''
     = Some (WithModelName configure_cohere)"
  "map_of (embedding_functions configurator_init) ''voyageai''
     = Some (WithModelName configure_voyageai)"
  "map_of (embedding_functions configurator_init) ''bedrock''
     = Some (WithModelName configure_bedrock)"
  "map_of (embedding_functions configurator_init) ''huggingface''
     = Some (WithModelName configure_huggingface)"
  "map_of (embedding_functions configurator_init) ''watson''
     = Some (WithModelName configure_watson)"
  "map_of (embedding_functions configurator_init) ''custom'' = Some (ConfigOnly configure_custom)"
  by (simp_all add: configurator_init_def)

subsection \<open>Dispatch\<close>

text \<open>
  C2, as stated, fails when the \<^verbatim>\<open>"config"\<close> entry is not a dict: the model name is read
  with \<^verbatim>\<open>config.get("model")\<close> before anything is looked up in the table, so for the
  provider \<^verbatim>\<open>"openai"\<close> and the config \<^verbatim>\<open>None\<close> the call raises \<^verbatim>\<open>AttributeError\<close> and the
  OpenAI configurator, which never raises, is not called. Without the \<^verbatim>\<open>"config"\<close> entry
  the same call returns what that configurator returns.
\<close>

theorem dispatch_config_none_raises:
  "configure_embedder configurator_init example_env
     (Some [(''provider'', VStr ''openai''), (''config'', VNone)]) = Inl AttributeError
   \<and> configure_embedder configurator_init example_env (Some [(''provider'', VStr ''openai'')])
     = Inr (OpenAIEmbeddingFunction
              [(''api_key'', VStr ''sk-test''), (''model_name'', VNone), (''api_base'', VNone),
               (''api_type'', VNone), (''api_version'', VNone), (''default_headers'', VNone),
               (''dimensions'', VNone), (''deployment_id'', VNone),
               (''organization_id'', VNone)])"
  by (simp add: configure_embedder_def dict_get_def dict_get_default_def py_get_def
      and_then_def lookup_provider_def configurator_init_def call_with_model_name_def
      configure_openai_def py_or_def os_getenv_def example_env_def)

text \<open>
  C2, amended. Without an embedder config, \<^verbatim>\<open>configure_embedder\<close> returns the OpenAI
  embedding function for the model \<^verbatim>\<open>text-embedding-3-small\<close> with, as API key, the value
  of the environment variable \<^verbatim>\<open>OPENAI_API_KEY\<close> (\<^verbatim>\<open>None\<close> when it is not set). Let the
  config be the \<^verbatim>\<open>"config"\<close> entry when that is a dict and the empty dict when there is no
  such entry, and let the model name be the \<^verbatim>\<open>"model"\<close> entry of the config, \<^verbatim>\<open>None\<close> when
  there is none. Then for each of the ten providers other than \<^verbatim>\<open>"custom"\<close> the result is
  what that provider's configurator returns or raises for the config and the model name.
  For the provider \<^verbatim>\<open>"custom"\<close> the result is what the custom configurator returns or
  raises for the \<^verbatim>\<open>"config"\<close> entry alone (the empty dict when there is none), whatever
  that entry is. When the \<^verbatim>\<open>"config"\<close> entry is there and is not a dict and the provider
  is not \<^verbatim>\<open>"custom"\<close>, \<^verbatim>\<open>AttributeError\<close> is raised.
\<close>

theorem configure_embedder_dispatch:
  "configure_embedder configurator_init e None
     = Inr (OpenAIEmbeddingFunction
              [(''api_key'',
                case getenv e ''OPENAI_API_KEY'' of None \<Rightarrow> VNone | Some key \<Rightarrow> VStr key),
               (''model_name'', VStr ''text-embedding-3-small'')])
   \<and> ((map_of ec ''config'' = Some (VDict config)
         \<or> map_of ec ''config'' = None \<and> config = [])
        \<and> model_name = (case map_of config ''model'' of None \<Rightarrow> VNone | Some m \<Rightarrow> m) \<longrightarrow>
        (map_of ec ''provider'' = Some (VStr ''openai'') \<longrightarrow>
           configure_embedder configurator_init e (Some ec)
             = configure_openai e config model_name)
      \<and> (map_of ec ''provider'' = Some (VStr ''azure'') \<longrightarrow>
           configure_embedder configurator_init e (Some ec)
             = configure_azure e config model_name)
      \<and> (map_of ec ''provider'' = Some (VStr ''ollama'') \<longrightarrow>
           configure_embedder configurator_init e (Some ec)
             = configure_ollama e config model_name)
      \<and> (map_of ec ''provider'' = Some (VStr ''vertexai'') \<longrightarrow>
           configure_embedder configurator_init e (Some ec)
             = configure_vertexai e config model_name)
      \<and> (map_of ec ''provider'' = Some (VStr ''google'') \<longrightarrow>
           configure_embedder configurator_init e (Some ec)
             = configure_google e config model_name)
      \<and> (map_of ec ''provider'' = Some (VStr ''cohere'') \<longrightarrow>
           configure_embedder configurator_init e (Some ec)
             = configure_cohere e config model_name)
      \<and> (map_of ec ''provider'' = Some (VStr ''voyageai'') \<longrightarrow>
           configure_embedder configurator_init e (Some ec)
             = configure_voyageai e config model_name)
      \<and> (map_of ec ''provider'' = Some (VStr ''bedrock'') \<longrightarrow>
           configure_embedder configurator_init e (Some ec)
             = configure_bedrock e config model_name)
      \<and> (map_of ec ''provider'' = Some (VStr ''huggingface'') \<longrightarrow>
           configure_embedder configurator_init e (Some ec)
             = configure_huggingface e config model_name)
      \<and> (map_of ec ''provider'' = Some (VStr ''watson'') \<longrightarrow>
           configure_embedder configurator_init e (Some ec)
             = configure_watson e config model_name))
   \<and> (map_of ec ''provider'' = Some (VStr ''custom'') \<longrightarrow>
        configure_embedder configurator_init e (Some ec)
          = configure_custom e (case map_of ec ''config'' of None \<Rightarrow> VDict [] | Some c \<Rightarrow> c))
   \<and> (map_of ec ''config'' = Some c \<and> (\<forall>d. c \<noteq> VDict d)
        \<and> map_of ec ''provider'' \<noteq> Some (VStr ''custom'') \<longrightarrow>
        configure_embedder configurator_init e (Some ec) = Inl AttributeError)"
proof -
  have default: "configure_embedder configurator_init e None
     = Inr (OpenAIEmbeddingFunction
              [(''api_key'',
                case getenv e ''OPENAI_API_KEY'' of None \<Rightarrow> VNone | Some key \<Rightarrow> VStr key),
               (''model_name'', VStr ''text-embedding-3-small'')])"
    by (simp add: configure_embedder_def create_default_embedding_function_def os_getenv_def)
  have row: "configure_embedder configurator_init e (Some ec) = g e config model_name"
    if "(map_of ec ''config'' = Some (VDict config)
          \<or> map_of ec ''config'' = None \<and> config = [])
        \<and> model_name = (case map_of config ''model'' of None \<Rightarrow> VNone | Some m \<Rightarrow> m)"
      and "map_of ec ''provider'' = Some (VStr p)"
      and "p \<noteq> ''custom''"
      and "map_of (embedding_functions configurator_init) p = Some (WithModelName g)"
    for p g
  proof -
    from that(1) have "dict_get_default ec ''config'' (VDict []) = VDict config"
      by (intro config_entry) simp
    from dispatch_with_model_name [OF this that(2,3,4)] that(1) show ?thesis
      by (simp add: dict_get_def)
  qed
  show ?thesis
    apply (intro conjI impI)
                apply (rule default)
               apply (erule (1) row, simp, rule table_entries(1))
               apply (erule (1) row, simp, rule table_entries(2))
               apply (erule (1) row, simp, rule table_entries(3))
               apply (erule (1) row, simp, rule table_entries(4))
               apply (erule (1) row, simp, rule table_entries(5))
               apply (erule (1) row, simp, rule table_entries(6))
               apply (erule (1) row, simp, rule table_entries(7))
               apply (erule (1) row, simp, rule table_entries(8))
               apply (erule (1) row, simp, rule table_entries(9))
               apply (erule (1) row, simp, rule table_entries(10))
     apply (erule dispatch_custom, rule table_entries(11))
    apply (erule dispatch_no_dict)
    done
qed

theorem configure_embedder_dispatch_witness:
  "configure_embedder configurator_init example_env None
     = Inr (OpenAIEmbeddingFunction
              [(''api_key'', VStr ''sk-test''),
               (''model_name'', VStr ''text-embedding-3-small'')])
   \<and> configure_embedder configurator_init example_env
       (Some [(''provider'', VStr ''ollama''), (''config'', VDict [(''model'', VStr ''nomic'')])])
     = configure_ollama example_env [(''model'', VStr ''nomic'')] (VStr ''nomic'')
   \<and> configure_embedder configurator_init example_env (Some [(''provider'', VStr ''huggingface'')])
     = configure_huggingface example_env [] VNone"
proof -
  note a = configure_embedder_dispatch
    [of example_env
        "[(''provider'', VStr ''ollama''), (''config'', VDict [(''model'', VStr ''nomic'')])]"
        "[(''model'', VStr ''nomic'')]" "VStr ''nomic''"]
  note b = configure_embedder_dispatch
    [of example_env "[(''provider'', VStr ''huggingface'')]" "[]" VNone]
  have 1: "configure_embedder configurator_init example_env None
     = Inr (OpenAIEmbeddingFunction
              [(''api_key'', VStr ''sk-test''),
               (''model_name'', VStr ''text-embedding-3-small'')])"
    using a [THEN conjunct1] by (simp add: example_env_def)
  have 2: "configure_embedder configurator_init example_env
       (Some [(''provider'', VStr ''ollama''), (''config'', VDict [(''model'', VStr ''nomic'')])])
     = configure_ollama example_env [(''model'', VStr ''nomic'')] (VStr ''nomic'')"
    using a [THEN conjunct2, THEN conjunct1] by simp
  have 3: "configure_embedder configurator_init example_env
       (Some [(''provider'', VStr ''huggingface'')])
     = configure_huggingface example_env [] VNone"
    using b [THEN conjunct2, THEN conjunct1] by simp
  from 1 2 3 show ?thesis by blast
qed

text \<open>
  C3, as stated, fails when the \<^verbatim>\<open>"config"\<close> entry is not a dict and when the provider
  cannot be hashed: the model name is read from the config before the provider is looked
  up, so a config of \<^verbatim>\<open>None\<close> raises \<^verbatim>\<open>AttributeError\<close>, and the lookup of a list raises
  \<^verbatim>\<open>TypeError\<close>. Neither message names the provider.
\<close>

theorem unsupported_provider_other_exception:
  "configure_embedder configurator_init example_env
     (Some [(''provider'', VStr ''foo''), (''config'', VNone)]) = Inl AttributeError
   \<and> configure_embedder configurator_init example_env
     (Some [(''provider'', VList [VStr ''foo''])]) = Inl TypeError"
  by (simp add: configure_embedder_def dict_get_def dict_get_default_def py_get_def
      and_then_def lookup_provider_def)

text \<open>
  C3, amended. Let the provider be hashable and not one of the eleven keys, and let the
  \<^verbatim>\<open>"config"\<close> entry be absent or a dict. Then \<^verbatim>\<open>configure_embedder\<close> raises an
  \<^verbatim>\<open>Exception\<close> whose message names the provider and lists the eleven keys. This holds for
  every table with these keys, whatever functions it holds: none of them is called.
\<close>

theorem unsupported_provider_raises:
  assumes "map fst (embedding_functions self) = supported_providers"
    and "dict_get ec ''provider'' = provider"
    and "provider \<notin> VStr ` set supported_providers"
    and "hashable provider"
    and "dict_get_default ec ''config'' (VDict []) = VDict config"
  shows "configure_embedder self e (Some ec) =
           Inl (PyException
             [Lit ''Unsupported embedding provider: '', Fmt provider,
              Lit '', supported providers: '', Fmt (VList (map VStr supported_providers))])"
proof -
  have "provider \<noteq> VStr ''custom''"
    using assms(3) by (auto simp: supported_providers_def)
  moreover have "map (VStr \<circ> fst) (embedding_functions self) = map VStr supported_providers"
    using assms(1) by (metis map_map)
  ultimately show ?thesis
    using lookup_unsupported [OF assms(1,3,4)]
    by (simp add: configure_embedder_def assms(2,5) py_get_def and_then_def
        unsupported_provider_def)
qed

theorem unsupported_provider_raises_witness:
  "configure_embedder configurator_init example_env (Some [(''provider'', VStr ''chroma'')])
     = Inl (PyException
         [Lit ''Unsupported embedding provider: '', Fmt (VStr ''chroma''),
          Lit '', supported providers: '',
          Fmt (VList
            [VStr ''openai'', VStr ''azure'', VStr ''ollama'', VStr ''vertexai'',
             VStr ''google'', VStr ''cohere'', VStr ''voyageai'', VStr ''bedrock'',
             VStr ''huggingface'', VStr ''watson'', VStr ''custom''])])"
proof -
  have "map fst (embedding_functions configurator_init) = supported_providers"
    and "dict_get [(''provider'', VStr ''chroma'')] ''provider'' = VStr ''chroma''"
    and "VStr ''chroma'' \<notin> VStr ` set supported_providers"
    and "hashable (VStr ''chroma'')"
    and "dict_get_default [(''provider'', VStr ''chroma'')] ''config'' (VDict []) = VDict []"
    by (auto simp: table_keys dict_get_def dict_get_default_def supported_providers_def)
  from unsupported_provider_raises [OF this, of example_env] show ?thesis
    by (simp add: supported_providers_def)
qed

subsection \<open>The Ollama configurator\<close>

text \<open>
  C4. The Ollama configurator raises \<^verbatim>\<open>ValueError\<close> when the model name is falsy
  (\<^verbatim>\<open>None\<close> when it is missing). Otherwise the URL is the first truthy value among the
  entries \<^verbatim>\<open>url\<close>, \<^verbatim>\<open>api_url\<close>, \<^verbatim>\<open>base_url\<close> and \<^verbatim>\<open>api_base\<close> of the config, in this order,
  and \<^verbatim>\<open>http://localhost:11434/api/embeddings\<close> when there is none; the configurator
  raises \<^verbatim>\<open>ValueError\<close> when \<^verbatim>\<open>urlparse\<close> finds no scheme or no netloc in it, and returns
  the Ollama embedding function for this URL and the model name when it finds both.
  Whenever it returns, the result is that embedding function and the URL has a scheme
  and a netloc; whenever it raises, it raises a \<^verbatim>\<open>ValueError\<close>.
\<close>

theorem configure_ollama_cases:
  "(\<not> truthy model_name \<longrightarrow>
      configure_ollama e config model_name
        = Inl (ValueError [Lit ''Model name is required for Ollama embedder configuration'']))
   \<and> ollama_url config =
       first_truthy (map (dict_get config) [''url'', ''api_url'', ''base_url'', ''api_base''])
         (VStr ''http://localhost:11434/api/embeddings'')
   \<and> (truthy model_name \<and> urlparse e (ollama_url config) = Inr (scheme, netloc)
        \<and> (scheme = [] \<or> netloc = []) \<longrightarrow>
        (\<exists>m. configure_ollama e config model_name = Inl (ValueError m)))
   \<and> (truthy model_name \<and> urlparse e (ollama_url config) = Inr (scheme, netloc)
        \<and> scheme \<noteq> [] \<and> netloc \<noteq> [] \<longrightarrow>
        configure_ollama e config model_name
          = Inr (OllamaEmbeddingFunction
                   [(''url'', ollama_url config), (''model_name'', model_name)]))
   \<and> (\<forall>f. configure_ollama e config model_name = Inr f \<longrightarrow>
         truthy model_name
         \<and> f = OllamaEmbeddingFunction
                 [(''url'', ollama_url config), (''model_name'', model_name)]
         \<and> (\<exists>s n. urlparse e (ollama_url config) = Inr (s, n) \<and> s \<noteq> [] \<and> n \<noteq> []))
   \<and> (\<forall>err. configure_ollama e config model_name = Inl err \<longrightarrow> (\<exists>m. err = ValueError m))"
proof -
  have 1: "\<not> truthy model_name \<Longrightarrow>
      configure_ollama e config model_name
        = Inl (ValueError [Lit ''Model name is required for Ollama embedder configuration''])"
    by (simp add: configure_ollama_def)
  have 3: "\<exists>m. configure_ollama e config model_name = Inl (ValueError m)"
    if "truthy model_name" and "urlparse e (ollama_url config) = Inr (scheme, netloc)"
      and "scheme = [] \<or> netloc = []"
    using that by (auto simp: configure_ollama_def validate_url_def and_then_def)
  have 4: "configure_ollama e config model_name
          = Inr (OllamaEmbeddingFunction
                   [(''url'', ollama_url config), (''model_name'', model_name)])"
    if "truthy model_name" and "urlparse e (ollama_url config) = Inr (scheme, netloc)"
      and "scheme \<noteq> []" and "netloc \<noteq> []"
    using that by (simp add: configure_ollama_def validate_url_def and_then_def)
  have 5: "truthy model_name
         \<and> f = OllamaEmbeddingFunction
                 [(''url'', ollama_url config), (''model_name'', model_name)]
         \<and> (\<exists>s n. urlparse e (ollama_url config) = Inr (s, n) \<and> s \<noteq> [] \<and> n \<noteq> [])"
    if "configure_ollama e config model_name = Inr f" for f
    using that
    by (auto simp: configure_ollama_def and_then_def validate_url_cases
        split: if_splits sum.splits)
  have 6: "\<exists>m. err = ValueError m"
    if "configure_ollama e config model_name = Inl err" for err
    using that
    by (auto simp: configure_ollama_def and_then_def split: if_splits sum.splits
        dest: validate_url_error)
  from 1 3 4 5 6 ollama_url_first_truthy [of config] show ?thesis by blast
qed

theorem configure_ollama_cases_witness:
  "configure_ollama example_env
     [(''url'', VStr []), (''base_url'', VStr ''http://localhost:11434/api/embeddings''),
      (''api_base'', VStr ''localhost'')] (VStr ''nomic'')
     = Inr (OllamaEmbeddingFunction
              [(''url'', VStr ''http://localhost:11434/api/embeddings''),
               (''model_name'', VStr ''nomic'')])
   \<and> (\<exists>m. configure_ollama example_env [(''url'', VStr ''localhost'')] (VStr ''nomic'')
            = Inl (ValueError m))
   \<and> configure_ollama example_env [] VNone
       = Inl (ValueError [Lit ''Model name is required for Ollama embedder configuration''])"
proof -
  let ?good = "[(''url'', VStr []), (''base_url'', VStr ''http://localhost:11434/api/embeddings''),
      (''api_base'', VStr ''localhost'')]"
  let ?bad = "[(''url'', VStr ''localhost'')]"
  have g: "ollama_url ?good = VStr ''http://localhost:11434/api/embeddings''"
    and b: "ollama_url ?bad = VStr ''localhost''"
    by (simp_all add: ollama_url_def py_or_def dict_get_def)
  have pg: "urlparse example_env (ollama_url ?good) = Inr (''http'', ''localhost:11434'')"
    and pb: "urlparse example_env (ollama_url ?bad) = Inr ([], [])"
    by (simp_all add: g b example_env_def)
  note good = configure_ollama_cases
    [of "VStr ''nomic''" example_env ?good "''http''" "''localhost:11434''"]
  note bad = configure_ollama_cases [of "VStr ''nomic''" example_env ?bad "[]" "[]"]
  note none = configure_ollama_cases [of VNone example_env "[]" "[]" "[]"]
  from good [THEN conjunct2, THEN conjunct2, THEN conjunct2, THEN conjunct1] pg
  have "configure_ollama example_env ?good (VStr ''nomic'')
     = Inr (OllamaEmbeddingFunction
              [(''url'', ollama_url ?good), (''model_name'', VStr ''nomic'')])"
    by simp
  then have 1: "configure_ollama example_env ?good (VStr ''nomic'')
     = Inr (OllamaEmbeddingFunction
              [(''url'', VStr ''http://localhost:11434/api/embeddings''),
               (''model_name'', VStr ''nomic'')])"
    by (simp only: g)
  from bad [THEN conjunct2, THEN conjunct2, THEN conjunct1] pb
  have 2: "\<exists>m. configure_ollama example_env ?bad (VStr ''nomic'') = Inl (ValueError m)"
    by simp
  from none [THEN conjunct1]
  have 3: "configure_ollama example_env [] VNone
       = Inl (ValueError [Lit ''Model name is required for Ollama embedder configuration''])"
    by simp
  from 1 2 3 show ?thesis by blast
qed

end
